theory Spec2Isabelle
  imports Main
begin

section \<open>YouTube screenshot server: values crossing the JavaScript boundary\<close>

text \<open>
  The server (youtubeScreenshotServer.ts) drives a headless browser through Playwright
  and serves three tools over a session-based HTTP endpoint. Everything the handlers do
  to the outside (Playwright calls, the file system, the clock) is an external call: its
  outcome is read from an environment record, and the call with its outcome is appended
  to a trace. A thrown JavaScript value is a value of type \<open>thrown\<close>.
\<close>

type_synonym handle = nat

datatype thrown =
    Error string string  \<comment> \<open>an Error instance: its name and its message\<close>
  | Thrown string  \<comment> \<open>any other thrown value, given by its String() rendering\<close>

text \<open>\<^verbatim>\<open>error instanceof Error ? error.message : String(error)\<close>\<close>

fun error_message :: "thrown \<Rightarrow> string" where
  "error_message (Error n m) = m"
| "error_message (Thrown s) = s"

text \<open>The template rendering \<^verbatim>\<open>${error}\<close>, that is Error.prototype.toString.\<close>

fun to_string :: "thrown \<Rightarrow> string" where
  "to_string (Error n m) = (if n = [] then m else if m = [] then n else n @ '': '' @ m)"
| "to_string (Thrown s) = s"

text \<open>\<^verbatim>\<open>new Error(message)\<close>\<close>

definition new_Error :: "string \<Rightarrow> thrown" where
  "new_Error m = Error ''Error'' m"

subsection \<open>Numbers as decimal text\<close>

definition digit_char :: "nat \<Rightarrow> char" where
  "digit_char n = ''0123456789'' ! (n mod 10)"

fun show_nat :: "nat \<Rightarrow> string" where
  "show_nat n = (if n < 10 then [digit_char n] else show_nat (n div 10) @ [digit_char (n mod 10)])"

definition show_int :: "int \<Rightarrow> string" where
  "show_int i = (if i < 0 then ''-'' @ show_nat (nat (- i)) else show_nat (nat i))"

text \<open>Zero-padded fields of a date: two, three, four and six digits.\<close>

definition pad2 :: "nat \<Rightarrow> string" where
  "pad2 n = [digit_char (n div 10), digit_char n]"

definition pad3 :: "nat \<Rightarrow> string" where
  "pad3 n = [digit_char (n div 100), digit_char (n div 10), digit_char n]"

definition pad4 :: "nat \<Rightarrow> string" where
  "pad4 n = digit_char (n div 1000) # pad3 n"

definition pad6 :: "nat \<Rightarrow> string" where
  "pad6 n = [digit_char (n div 100000), digit_char (n div 10000)] @ pad4 n"

subsection \<open>Date.prototype.toISOString\<close>

text \<open>
  \<^verbatim>\<open>new Date().toISOString()\<close> for a time value \<open>t\<close> in milliseconds since the epoch
  (ECMAScript 21.4.4.36): \<open>YYYY-MM-DDTHH:mm:ss.sssZ\<close> in UTC, the year written with a
  sign and six digits outside 0..9999. The civil date is computed from the day number
  in 400-year eras of 146097 days, with the year starting in March.
\<close>

definition year_month_day :: "int \<Rightarrow> int \<times> nat \<times> nat" where
  "year_month_day days =
     (let z = days + 719468;
          era = z div 146097;
          doe = z mod 146097;
          yoe = (doe - doe div 1460 + doe div 36524 - doe div 146096) div 365;
          doy = doe - (365 * yoe + yoe div 4 - yoe div 100);
          mp = (5 * doy + 2) div 153;
          d = doy - (153 * mp + 2) div 5 + 1;
          m = (if mp < 10 then mp + 3 else mp - 9);
          y = yoe + era * 400
      in (if m \<le> 2 then y + 1 else y, nat m, nat d))"

definition year_string :: "int \<Rightarrow> string" where
  "year_string y =
     (if 0 \<le> y \<and> y \<le> 9999 then pad4 (nat y)
      else if y < 0 then ''-'' @ pad6 (nat (- y))
      else ''+'' @ pad6 (nat y))"

definition date_time_string :: "int \<Rightarrow> string" where
  "date_time_string t =
     (let secs = t div 1000;
          s = nat (secs mod 60);
          mi = nat ((secs div 60) mod 60);
          h = nat ((secs div 3600) mod 24);
          (y, m, d) = year_month_day (secs div 86400)
      in year_string y @ ''-'' @ pad2 m @ ''-'' @ pad2 d @ ''T'' @
         pad2 h @ '':'' @ pad2 mi @ '':'' @ pad2 s)"

definition toISOString :: "int \<Rightarrow> string" where
  "toISOString t = date_time_string t @ ''.'' @ pad3 (nat (t mod 1000)) @ ''Z''"

subsection \<open>path.resolve (POSIX)\<close>

text \<open>
  \<^verbatim>\<open>path.resolve(filename)\<close> with one argument: a relative name is placed under the
  working directory of the process (an absolute path), the result is split at \<open>/\<close>,
  empty and \<open>.\<close> segments are dropped, \<open>..\<close> removes the segment before it (nothing at
  the root), and the remaining segments are joined below the root.
\<close>

fun split_slash :: "string \<Rightarrow> string list" where
  "split_slash [] = [[]]"
| "split_slash (c # cs) =
     (if c = CHR ''/'' then [] # split_slash cs
      else (case split_slash cs of [] \<Rightarrow> [[c]] | seg # rest \<Rightarrow> (c # seg) # rest))"

fun normalize_segments :: "string list \<Rightarrow> string list \<Rightarrow> string list" where
  "normalize_segments acc [] = acc"
| "normalize_segments acc (s # ss) =
     (if s = [] \<or> s = ''.'' then normalize_segments acc ss
      else if s = ''..'' then normalize_segments (butlast acc) ss
      else normalize_segments (acc @ [s]) ss)"

fun join_slash :: "string list \<Rightarrow> string" where
  "join_slash [] = []"
| "join_slash [s] = s"
| "join_slash (s # t # ss) = s @ ''/'' @ join_slash (t # ss)"

definition is_absolute :: "string \<Rightarrow> bool" where
  "is_absolute p = (case p of [] \<Rightarrow> False | c # _ \<Rightarrow> c = CHR ''/'')"

definition path_resolve :: "string \<Rightarrow> string \<Rightarrow> string" where
  "path_resolve cwd filename =
     (let full = (if is_absolute filename then filename else cwd @ ''/'' @ filename)
      in ''/'' @ join_slash (normalize_segments [] (split_slash full)))"

section \<open>The browser automation server (getServer)\<close>

subsection \<open>Closure state, the outside world and the trace\<close>

text \<open>
  \<^verbatim>\<open>let browser: Browser | null = null; let page: Page | null = null;\<close> are declared
  inside \<open>getServer\<close>: every server instance has its own pair.
\<close>

record server_state =
  browser :: "handle option"
  page :: "handle option"

datatype level = Info | Warning | Err

datatype call =
    Launch
  | NewPage handle
  | SetViewportSize handle nat nat
  | ClosePage handle
  | CloseBrowser handle
  | Goto handle string string
  | WaitForSelector handle string nat
  | Click handle string "nat option"
  | WaitForTimeout handle int
  | Query handle string
  | ElementScreenshot handle string string
  | PageScreenshot handle string string bool
  | Stat string
  | Evaluate handle

datatype event =
    Notification level string
  | Ext call "thrown option"  \<comment> \<open>an external call and what it threw, if anything\<close>

text \<open>
  The world outside the closures: the next unused handle, the browsers and pages that
  are open, and the trace of notifications and external calls in the order they happen.
\<close>

record world =
  fresh :: handle
  browsers :: "handle list"
  pages :: "handle list"
  trace :: "event list"

text \<open>
  What the document of the page shows to \<^verbatim>\<open>page.evaluate\<close> (lines 305-322). The
  duration and the playback position are taken in whole seconds, on which
  \<^verbatim>\<open>Math.round\<close> is the identity; fractional values and \<open>NaN\<close> are not represented.
\<close>

record video_element =
  duration :: int
  currentTime :: int
  videoWidth :: nat
  videoHeight :: nat
  paused :: bool

record document =
  video :: "video_element option"  \<comment> \<open>\<^verbatim>\<open>document.querySelector("video")\<close>\<close>
  titleText :: "string option"  \<comment> \<open>\<^verbatim>\<open>titleElement?.textContent?.trim()\<close>\<close>
  channelText :: "string option"  \<comment> \<open>\<^verbatim>\<open>channelElement?.textContent?.trim()\<close>\<close>
  href :: string  \<comment> \<open>\<^verbatim>\<open>window.location.href\<close>\<close>

text \<open>
  The outcome of every external call during one tool call: \<open>None\<close> (or \<open>Inr\<close>) when it
  returns, the thrown value otherwise. Clicks are told apart by their selector, the three
  \<^verbatim>\<open>waitForTimeout\<close> calls by their place in the handler.
\<close>

record env =
  launch :: "thrown option"
  newPage :: "thrown option"
  setViewportSize :: "thrown option"
  closePage :: "thrown option"
  closeBrowser :: "thrown option"
  goto :: "string \<Rightarrow> thrown option"
  waitForSelector :: "thrown option"
  click :: "string \<Rightarrow> thrown option"
  waitAfterSettings :: "thrown option"
  waitAfterQuality :: "thrown option"
  waitStabilize :: "thrown option"
  queryVideo :: "thrown + bool"  \<comment> \<open>\<^verbatim>\<open>page.$("video")\<close>: is there an element\<close>
  elementScreenshot :: "thrown option"
  pageScreenshot :: "thrown option"
  stat :: "string \<Rightarrow> thrown + nat"  \<comment> \<open>\<^verbatim>\<open>fs.stat(path)\<close>: the size in bytes\<close>
  evaluate :: "thrown + document"
  now :: int  \<comment> \<open>\<^verbatim>\<open>new Date()\<close>, milliseconds since the epoch\<close>
  cwd :: string  \<comment> \<open>\<^verbatim>\<open>process.cwd()\<close>, an absolute path\<close>
  randomUUID :: string  \<comment> \<open>the identifier \<^verbatim>\<open>randomUUID()\<close> would mint\<close>

record call_tool_result =
  content :: "string list"  \<comment> \<open>the text of each \<^verbatim>\<open>{type: "text", text}\<close> item\<close>
  isError :: bool  \<comment> \<open>\<open>False\<close> when the field is absent\<close>

subsection \<open>Sequencing of awaited steps\<close>

text \<open>
  An asynchronous function body is a state transformer over the closure state and the
  world that either returns a value or throws.
\<close>

type_synonym st = "server_state \<times> world"
type_synonym 'a act = "st \<Rightarrow> (thrown + 'a) \<times> st"

definition then_do :: "'a act \<Rightarrow> ('a \<Rightarrow> 'b act) \<Rightarrow> 'b act" where
  "then_do m f s = (case m s of (Inl e, s') \<Rightarrow> (Inl e, s') | (Inr a, s') \<Rightarrow> f a s')"

definition try_catch :: "'a act \<Rightarrow> (thrown \<Rightarrow> 'a act) \<Rightarrow> 'a act" where
  "try_catch m h s = (case m s of (Inl e, s') \<Rightarrow> h e s' | (Inr a, s') \<Rightarrow> (Inr a, s'))"

definition return :: "'a \<Rightarrow> 'a act" where
  "return a s = (Inr a, s)"

definition throw :: "thrown \<Rightarrow> 'a act" where
  "throw e s = (Inl e, s)"

definition record_event :: "event \<Rightarrow> st \<Rightarrow> st" where
  "record_event ev s = (fst s, (snd s)\<lparr>trace := trace (snd s) @ [ev]\<rparr>)"

text \<open>An external call without a result: it is traced with its outcome.\<close>

definition ext :: "call \<Rightarrow> thrown option \<Rightarrow> unit act" where
  "ext c outcome s =
     (case outcome of None \<Rightarrow> (Inr (), record_event (Ext c None) s)
      | Some e \<Rightarrow> (Inl e, record_event (Ext c (Some e)) s))"

text \<open>An external call with a result.\<close>

definition ext_value :: "call \<Rightarrow> thrown + 'a \<Rightarrow> 'a act" where
  "ext_value c outcome s =
     (case outcome of Inr a \<Rightarrow> (Inr a, record_event (Ext c None) s)
      | Inl e \<Rightarrow> (Inl e, record_event (Ext c (Some e)) s))"

text \<open>
  Modelled from the spec: \<open>sendNotification\<close> belongs to the protocol layer of the SDK,
  which is not part of the server file. Section 9 of the specification describes it as
  an output stream the controller writes progress events to; here a notification is
  appended to the trace and the write itself does not throw.
\<close>

definition sendNotification :: "level \<Rightarrow> string \<Rightarrow> unit act" where
  "sendNotification l d s = (Inr (), record_event (Notification l d) s)"

subsection \<open>initBrowser and cleanup (lines 25-57)\<close>

definition launch_browser :: "env \<Rightarrow> handle act" where
  "launch_browser e s =
     (case launch e of
        Some err \<Rightarrow> (Inl err, record_event (Ext Launch (Some err)) s)
      | None \<Rightarrow>
          (let (c, w) = s; b = fresh w
           in (Inr b, (c\<lparr>browser := Some b\<rparr>,
                 w\<lparr>fresh := Suc b, browsers := browsers w @ [b],
                   trace := trace w @ [Ext Launch None]\<rparr>))))"

definition open_page :: "env \<Rightarrow> handle \<Rightarrow> handle act" where
  "open_page e b s =
     (case newPage e of
        Some err \<Rightarrow> (Inl err, record_event (Ext (NewPage b) (Some err)) s)
      | None \<Rightarrow>
          (let (c, w) = s; p = fresh w
           in (Inr p, (c\<lparr>page := Some p\<rparr>,
                 w\<lparr>fresh := Suc p, pages := pages w @ [p],
                   trace := trace w @ [Ext (NewPage b) None]\<rparr>))))"

definition initBrowser :: "env \<Rightarrow> unit act" where
  "initBrowser e =
     then_do (\<lambda>s. case browser (fst s) of Some b \<Rightarrow> (Inr b, s) | None \<Rightarrow> launch_browser e s) (\<lambda>b.
     (\<lambda>s. case page (fst s) of
        Some p \<Rightarrow> (Inr (), s)
      | None \<Rightarrow>
          then_do (open_page e b) (\<lambda>p.
          ext (SetViewportSize p 1920 1080) (setViewportSize e)) s))"

definition close_page :: "env \<Rightarrow> handle \<Rightarrow> unit act" where
  "close_page e p s =
     (case closePage e of
        Some err \<Rightarrow> (Inl err, record_event (Ext (ClosePage p) (Some err)) s)
      | None \<Rightarrow>
          (let (c, w) = s
           in (Inr (), (c\<lparr>page := None\<rparr>,
                 w\<lparr>pages := removeAll p (pages w),
                   trace := trace w @ [Ext (ClosePage p) None]\<rparr>))))"

definition close_browser :: "env \<Rightarrow> handle \<Rightarrow> unit act" where
  "close_browser e b s =
     (case closeBrowser e of
        Some err \<Rightarrow> (Inl err, record_event (Ext (CloseBrowser b) (Some err)) s)
      | None \<Rightarrow>
          (let (c, w) = s
           in (Inr (), (c\<lparr>browser := None\<rparr>,
                 w\<lparr>browsers := removeAll b (browsers w),
                   trace := trace w @ [Ext (CloseBrowser b) None]\<rparr>))))"

definition cleanup :: "env \<Rightarrow> unit act" where
  "cleanup e =
     then_do (\<lambda>s. case page (fst s) of Some p \<Rightarrow> close_page e p s | None \<Rightarrow> (Inr (), s)) (\<lambda>_.
     (\<lambda>s. case browser (fst s) of Some b \<Rightarrow> close_browser e b s | None \<Rightarrow> (Inr (), s)))"

subsection \<open>The youtube-screenshot tool (lines 60-246)\<close>

datatype quality = Highest | Hd1080 | Hd720 | Large | Medium

text \<open>The name of a tier, as the enum of the schema spells it and \<^verbatim>\<open>${quality}\<close> prints it.\<close>

fun quality_name :: "quality \<Rightarrow> string" where
  "quality_name Highest = ''highest''"
| "quality_name Hd1080 = ''hd1080''"
| "quality_name Hd720 = ''hd720''"
| "quality_name Large = ''large''"
| "quality_name Medium = ''medium''"

fun qualityMap :: "quality \<Rightarrow> string" where
  "qualityMap Highest = ''2160p''"
| "qualityMap Hd1080 = ''1080p''"
| "qualityMap Hd720 = ''720p''"
| "qualityMap Large = ''480p''"
| "qualityMap Medium = ''360p''"

text \<open>
  The arguments as the handler receives them, after the schema has filled in the
  defaults of \<open>waitTime\<close> and \<open>quality\<close>. \<open>waitTime\<close> is a whole number of milliseconds
  below \<open>10\<^sup>2\<^sup>1\<close> in size, which JavaScript prints with all its digits.
\<close>

record args =
  url :: string
  outputPath :: "string option"
  waitTime :: int
  quality :: quality

definition settings_selector :: string where
  \<open>settings_selector = ''button[aria-label="Settings"]''\<close>

definition quality_item_selector :: string where
  \<open>quality_item_selector = ''div[role="menuitem"]:has-text("Quality")''\<close>

definition radio_selector :: "string \<Rightarrow> string" where
  \<open>radio_selector label = ''div[role="menuitemradio"]:has-text("'' @ label @ ''")''\<close>

text \<open>The body of the inner \<open>try\<close> (lines 125-160).\<close>

definition set_quality_try :: "env \<Rightarrow> handle \<Rightarrow> quality \<Rightarrow> unit act" where
  "set_quality_try e p q =
     then_do (ext (Click p settings_selector (Some 5000)) (click e settings_selector)) (\<lambda>_.
     then_do (ext (WaitForTimeout p 1000) (waitAfterSettings e)) (\<lambda>_.
     then_do (ext (Click p quality_item_selector (Some 5000)) (click e quality_item_selector)) (\<lambda>_.
     then_do (ext (WaitForTimeout p 1000) (waitAfterQuality e)) (\<lambda>_.
     let targetQuality = qualityMap q in
     then_do
       (try_catch
          (ext (Click p (radio_selector targetQuality) (Some 3000))
             (click e (radio_selector targetQuality)))
          (\<lambda>_. ext (Click p (radio_selector ''Auto'') (Some 3000))
             (click e (radio_selector ''Auto'')))) (\<lambda>_.
     ext (Click p ''video'' None) (click e ''video''))))))"

text \<open>The inner \<open>try\<close> with its \<open>catch\<close> (lines 124-169).\<close>

definition set_quality :: "env \<Rightarrow> handle \<Rightarrow> quality \<Rightarrow> unit act" where
  "set_quality e p q =
     try_catch (set_quality_try e p q)
       (\<lambda>error. sendNotification Warning (''Could not set video quality: '' @ to_string error))"

text \<open>The timestamped name and the resolved path (lines 183-185).\<close>

definition replace_colon_dot :: "string \<Rightarrow> string" where
  "replace_colon_dot = map (\<lambda>c. if c = CHR '':'' \<or> c = CHR ''.'' then CHR ''-'' else c)"

definition default_filename :: "int \<Rightarrow> string" where
  "default_filename t = ''youtube-screenshot-'' @ replace_colon_dot (toISOString t) @ ''.png''"

text \<open>\<^verbatim>\<open>outputPath || ...\<close>: an absent and an empty \<open>outputPath\<close> are both falsy.\<close>

definition output_filename :: "env \<Rightarrow> args \<Rightarrow> string" where
  "output_filename e a =
     (case outputPath a of
        None \<Rightarrow> default_filename (now e)
      | Some f \<Rightarrow> if f = [] then default_filename (now e) else f)"

definition fullPath :: "env \<Rightarrow> args \<Rightarrow> string" where
  "fullPath e a = path_resolve (cwd e) (output_filename e a)"

text \<open>The capture block (lines 195-209).\<close>

definition take_screenshot :: "env \<Rightarrow> handle \<Rightarrow> string \<Rightarrow> unit act" where
  "take_screenshot e p path =
     then_do (ext_value (Query p ''video'') (queryVideo e)) (\<lambda>videoElement.
     if videoElement
     then ext (ElementScreenshot p path ''png'') (elementScreenshot e)
     else ext (PageScreenshot p path ''png'' False) (pageScreenshot e))"

text \<open>
  \<^verbatim>\<open>Math.round(stats.size / 1024)\<close>: the size is a whole number of bytes, and
  \<open>Math.round\<close> rounds a half upwards.
\<close>

definition fileSizeKB :: "nat \<Rightarrow> nat" where
  "fileSizeKB bytes = (2 * bytes + 1024) div 2048"

definition success_text :: "string \<Rightarrow> nat \<Rightarrow> string \<Rightarrow> quality \<Rightarrow> string" where
  "success_text path kb u q =
     ''Screenshot successfully saved to: '' @ path @
     [CHR ''\<newline>''] @ ''File size: '' @ show_nat kb @ '' KB'' @
     [CHR ''\<newline>''] @ ''Video URL: '' @ u @
     [CHR ''\<newline>''] @ ''Quality setting: '' @ quality_name q"

text \<open>The verification block (lines 211-226).\<close>

definition verify_file :: "env \<Rightarrow> string \<Rightarrow> string \<Rightarrow> quality \<Rightarrow> call_tool_result act" where
  "verify_file e path u q =
     try_catch
       (then_do (ext_value (Stat path) (stat e path)) (\<lambda>bytes.
        return \<lparr>content = [success_text path (fileSizeKB bytes) u q], isError = False\<rparr>))
       (\<lambda>error. throw (new_Error (''Screenshot file was not created: '' @ to_string error)))"

text \<open>\<^verbatim>\<open>if (!page) throw new Error(...)\<close> (lines 100-102); the page is used from then on.\<close>

definition require_page :: "handle act" where
  "require_page s =
     (case page (fst s) of
        None \<Rightarrow> (Inl (new_Error ''Failed to initialize browser page''), s)
      | Some p \<Rightarrow> (Inr p, s))"

text \<open>The body of the outer \<open>try\<close> (lines 93-226).\<close>

definition youtube_screenshot_try :: "env \<Rightarrow> args \<Rightarrow> call_tool_result act" where
  "youtube_screenshot_try e a =
     then_do (sendNotification Info ''Initializing browser...'') (\<lambda>_.
     then_do (initBrowser e) (\<lambda>_.
     then_do require_page (\<lambda>p.
     then_do (sendNotification Info (''Loading YouTube video: '' @ url a)) (\<lambda>_.
     then_do (ext (Goto p (url a) ''networkidle'') (goto e (url a))) (\<lambda>_.
     then_do (ext (WaitForSelector p ''video'' 10000) (waitForSelector e)) (\<lambda>_.
     then_do (sendNotification Info ''Video player loaded, setting quality...'') (\<lambda>_.
     then_do (set_quality e p (quality a)) (\<lambda>_.
     then_do (sendNotification Info
                (''Waiting '' @ show_int (waitTime a) @ ''ms for video to stabilize...'')) (\<lambda>_.
     then_do (ext (WaitForTimeout p (waitTime a)) (waitStabilize e)) (\<lambda>_.
     then_do (sendNotification Info
                (''Taking screenshot and saving to: '' @ fullPath e a)) (\<lambda>_.
     then_do (take_screenshot e p (fullPath e a)) (\<lambda>_.
     verify_file e (fullPath e a) (url a) (quality a)))))))))))))"

definition error_result :: "string \<Rightarrow> thrown \<Rightarrow> call_tool_result" where
  "error_result prefix error = \<lparr>content = [prefix @ error_message error], isError = True\<rparr>"

text \<open>The handler: the outer \<open>try\<close> with its \<open>catch\<close> (lines 92-244). It always returns.\<close>

definition youtube_screenshot :: "env \<Rightarrow> args \<Rightarrow> st \<Rightarrow> call_tool_result \<times> st" where
  "youtube_screenshot e a s =
     (case youtube_screenshot_try e a s of
        (Inr r, s') \<Rightarrow> (r, s')
      | (Inl error, s') \<Rightarrow>
          (error_result ''Failed to take YouTube screenshot: '' error,
           record_event (Notification Err (''Error: '' @ to_string error)) s'))"

subsection \<open>The cleanup-browser tool (lines 249-284)\<close>

definition cleanup_browser :: "env \<Rightarrow> st \<Rightarrow> call_tool_result \<times> st" where
  "cleanup_browser e s =
     (case then_do (sendNotification Info ''Cleaning up browser resources...'') (\<lambda>_.
           cleanup e) s of
        (Inr _, s') \<Rightarrow>
          (\<lparr>content = [''Browser resources cleaned up successfully''], isError = False\<rparr>, s')
      | (Inl error, s') \<Rightarrow> (error_result ''Failed to cleanup browser: '' error, s'))"

subsection \<open>The get-video-info tool (lines 287-353)\<close>

record video_info =
  info_title :: string
  info_channel :: string
  info_duration :: int
  info_currentTime :: int
  info_videoWidth :: nat
  info_videoHeight :: nat
  info_paused :: bool
  info_url :: string

text \<open>\<^verbatim>\<open>text || "Unknown"\<close>: an absent and an empty text are both falsy.\<close>

definition or_unknown :: "string option \<Rightarrow> string" where
  "or_unknown t = (case t of None \<Rightarrow> ''Unknown'' | Some x \<Rightarrow> if x = [] then ''Unknown'' else x)"

text \<open>The function evaluated in the page (lines 305-322).\<close>

definition extract_info :: "document \<Rightarrow> video_info" where
  "extract_info d =
     \<lparr>info_title = or_unknown (titleText d),
      info_channel = or_unknown (channelText d),
      info_duration = (case video d of Some v \<Rightarrow> duration v | None \<Rightarrow> 0),
      info_currentTime = (case video d of Some v \<Rightarrow> currentTime v | None \<Rightarrow> 0),
      info_videoWidth = (case video d of Some v \<Rightarrow> videoWidth v | None \<Rightarrow> 0),
      info_videoHeight = (case video d of Some v \<Rightarrow> videoHeight v | None \<Rightarrow> 0),
      info_paused = (case video d of Some v \<Rightarrow> paused v | None \<Rightarrow> True),
      info_url = href d\<rparr>"

definition info_text :: "video_info \<Rightarrow> string" where
  "info_text i =
     ''Video Information:'' @
     [CHR ''\<newline>''] @ ''Title: '' @ info_title i @
     [CHR ''\<newline>''] @ ''Channel: '' @ info_channel i @
     [CHR ''\<newline>''] @ ''Duration: '' @ show_int (info_duration i) @ ''s'' @
     [CHR ''\<newline>''] @ ''Current Time: '' @ show_int (info_currentTime i) @ ''s'' @
     [CHR ''\<newline>''] @ ''Resolution: '' @ show_nat (info_videoWidth i) @ ''x'' @
       show_nat (info_videoHeight i) @
     [CHR ''\<newline>''] @ ''Status: '' @ (if info_paused i then ''Paused'' else ''Playing'') @
     [CHR ''\<newline>''] @ ''URL: '' @ info_url i"

definition get_video_info_try :: "env \<Rightarrow> call_tool_result act" where
  "get_video_info_try e =
     then_do (\<lambda>s. case page (fst s) of
                None \<Rightarrow> (Inl (new_Error ''No browser page available. Please load a video first.''), s)
              | Some p \<Rightarrow> (Inr p, s)) (\<lambda>p.
     then_do (sendNotification Info ''Extracting video information...'') (\<lambda>_.
     then_do (ext_value (Evaluate p) (evaluate e)) (\<lambda>d.
     return \<lparr>content = [info_text (extract_info d)], isError = False\<rparr>)))"

definition get_video_info :: "env \<Rightarrow> st \<Rightarrow> call_tool_result \<times> st" where
  "get_video_info e s =
     (case get_video_info_try e s of
        (Inr r, s') \<Rightarrow> (r, s')
      | (Inl error, s') \<Rightarrow> (error_result ''Failed to get video info: '' error, s'))"

section \<open>The HTTP front door (lines 363-437)\<close>

text \<open>
  \<^verbatim>\<open>const transports: { [sessionId: string]: StreamableHTTPServerTransport } = {}\<close>.
  A transport is connected to exactly one server instance, created for it by
  \<open>getServer\<close>; it is represented by the closure state of that server. The process is
  the map of transports together with the outside world that all of them share.
\<close>

type_synonym transport = server_state

record process =
  transports :: "string \<rightharpoonup> transport"
  outside :: world

text \<open>A new server instance starts with no browser and no page (lines 21-22).\<close>

definition getServer :: transport where
  "getServer = \<lparr>browser = None, page = None\<rparr>"

text \<open>
  \<^verbatim>\<open>transports[sessionId]\<close> reads a property of a plain object: a name the object does
  not own is looked up in \<open>Object.prototype\<close>, whose properties are all truthy and are
  not transports.
\<close>

definition Object_prototype :: "string list" where
  "Object_prototype =
     [''constructor'', ''__defineGetter__'', ''__defineSetter__'', ''hasOwnProperty'',
      ''__lookupGetter__'', ''__lookupSetter__'', ''isPrototypeOf'', ''propertyIsEnumerable'',
      ''toString'', ''valueOf'', ''__proto__'', ''toLocaleString'']"

datatype 'a property = Own 'a | Inherited | Undefined

definition get_property :: "(string \<rightharpoonup> 'a) \<Rightarrow> string \<Rightarrow> 'a property" where
  "get_property obj name =
     (case obj name of
        Some v \<Rightarrow> Own v
      | None \<Rightarrow> if name \<in> set Object_prototype then Inherited else Undefined)"

datatype tool_call =
    YoutubeScreenshot string "string option" "int option" "quality option"
  | CleanupBrowser
  | GetVideoInfo

datatype body = Initialize | CallTool tool_call | OtherBody

record request =
  mcp_session_id :: "string option"  \<comment> \<open>\<^verbatim>\<open>req.headers["mcp-session-id"]\<close>\<close>
  body :: body

text \<open>Modelled from the spec: \<open>isInitializeRequest\<close> of the SDK's types, the test for a
  valid initialize request.\<close>

definition isInitializeRequest :: "body \<Rightarrow> bool" where
  "isInitializeRequest b = (b = Initialize)"

record error_body =
  jsonrpc :: string
  code :: int
  message :: string
  id :: "string option"  \<comment> \<open>\<open>None\<close> is \<open>null\<close>\<close>

datatype response =
    Status nat error_body  \<comment> \<open>\<^verbatim>\<open>res.status(n).json(body)\<close>\<close>
  | Initialized string  \<comment> \<open>the initialize response, carrying the new session identifier\<close>
  | Handled "call_tool_result option"  \<comment> \<open>what the transport answered\<close>

definition bad_request :: response where
  "bad_request = Status 400
     \<lparr>jsonrpc = ''2.0'', code = - 32000,
      message = ''Bad Request: No valid session ID provided'', id = None\<rparr>"

definition internal_error :: response where
  "internal_error = Status 500
     \<lparr>jsonrpc = ''2.0'', code = - 32603, message = ''Internal server error'', id = None\<rparr>"

text \<open>
  Modelled from the spec: \<open>transport.handleRequest\<close> of the SDK on a session that
  exists. A tool call is validated against the schema of the tool, which fills in the
  defaults \<open>waitTime = 3000\<close> and \<open>quality = highest\<close> (lines 75-86), and is routed to the
  handler registered by the server of this transport; any other body is answered by the
  protocol layer and leaves the browser state alone.
\<close>

definition handleRequest :: "env \<Rightarrow> body \<Rightarrow> st \<Rightarrow> call_tool_result option \<times> st" where
  "handleRequest e b s =
     (case b of
        CallTool (YoutubeScreenshot u out wt q) \<Rightarrow>
          (let (r, s') = youtube_screenshot e
               \<lparr>url = u, outputPath = out,
                waitTime = (case wt of None \<Rightarrow> 3000 | Some t \<Rightarrow> t),
                quality = (case q of None \<Rightarrow> Highest | Some x \<Rightarrow> x)\<rparr> s
           in (Some r, s'))
      | CallTool CleanupBrowser \<Rightarrow> (let (r, s') = cleanup_browser e s in (Some r, s'))
      | CallTool GetVideoInfo \<Rightarrow> (let (r, s') = get_video_info e s in (Some r, s'))
      | _ \<Rightarrow> (None, s))"

text \<open>\<^verbatim>\<open>sessionId\<close> as a condition: \<open>undefined\<close> and the empty string are falsy.\<close>

definition truthy :: "string option \<Rightarrow> bool" where
  "truthy h = (case h of None \<Rightarrow> False | Some v \<Rightarrow> v \<noteq> [])"

text \<open>
  The POST handler. In the first branch an inherited property is taken for a transport;
  calling its \<open>handleRequest\<close> throws a TypeError, which the \<open>catch\<close> answers with 500
  since nothing has been sent. In the second branch the transport of the new session is
  connected to a new server and registered under the identifier minted for it
  (\<open>onsessioninitialized\<close>, lines 386-389) while the initialize request is handled.
\<close>

definition mcpPostHandler :: "env \<Rightarrow> request \<Rightarrow> process \<Rightarrow> response \<times> process" where
  "mcpPostHandler e req P =
     (let sessionId = mcp_session_id req;
          sid = (case sessionId of None \<Rightarrow> [] | Some v \<Rightarrow> v)
      in if truthy sessionId \<and> get_property (transports P) sid \<noteq> Undefined then
           (case get_property (transports P) sid of
              Own t \<Rightarrow>
                (let (r, (t', w')) = handleRequest e (body req) (t, outside P)
                 in (Handled r, P\<lparr>transports := (transports P)(sid \<mapsto> t'), outside := w'\<rparr>))
            | _ \<Rightarrow> (internal_error, P))
         else if \<not> truthy sessionId \<and> isInitializeRequest (body req) then
           (Initialized (randomUUID e),
            P\<lparr>transports := (transports P)(randomUUID e \<mapsto> getServer)\<rparr>)
         else (bad_request, P))"

section \<open>Observations and scenarios\<close>

definition empty_world :: world where
  "empty_world = \<lparr>fresh = 0, browsers = [], pages = [], trace = []\<rparr>"

text \<open>What the quality block appends to the trace, read off a run on an empty trace.\<close>

definition negotiation_trace :: "env \<Rightarrow> handle \<Rightarrow> quality \<Rightarrow> event list" where
  "negotiation_trace e p q = trace (snd (snd (set_quality e p q (getServer, empty_world))))"

text \<open>The menu entry with the given label was clicked and the click went through.\<close>

definition selects :: "env \<Rightarrow> handle \<Rightarrow> quality \<Rightarrow> string \<Rightarrow> bool" where
  "selects e p q label =
     (Ext (Click p (radio_selector label) (Some 3000)) None \<in> set (negotiation_trace e p q))"

text \<open>The settings menu and its quality sub-menu both opened (lines 126-133).\<close>

definition menus_open :: "env \<Rightarrow> bool" where
  "menus_open e =
     (click e settings_selector = None \<and> waitAfterSettings e = None \<and>
      click e quality_item_selector = None \<and> waitAfterQuality e = None)"

text \<open>The result every failure of the screenshot tool is reported with (lines 233-243).\<close>

definition failed :: "thrown \<Rightarrow> call_tool_result" where
  "failed error = error_result ''Failed to take YouTube screenshot: '' error"

text \<open>An environment in which every external call goes through.\<close>

definition quiet_env :: env where
  "quiet_env =
     \<lparr>launch = None, newPage = None, setViewportSize = None, closePage = None,
      closeBrowser = None, goto = (\<lambda>_. None), waitForSelector = None, click = (\<lambda>_. None),
      waitAfterSettings = None, waitAfterQuality = None, waitStabilize = None,
      queryVideo = Inr True, elementScreenshot = None, pageScreenshot = None,
      stat = (\<lambda>_. Inr 204800),
      evaluate = Inr \<lparr>video = None, titleText = None, channelText = None, href = ''about:blank''\<rparr>,
      now = 1700000000000, cwd = ''/srv/app'', randomUUID = ''session-1''\<rparr>"

definition timeout_error :: thrown where
  "timeout_error = Error ''TimeoutError'' ''Timeout exceeded.''"

text \<open>A page on which the settings button never shows up.\<close>

definition no_settings_env :: env where
  "no_settings_env =
     quiet_env\<lparr>click := (\<lambda>sel. if sel = settings_selector then Some timeout_error else None)\<rparr>"

text \<open>A player whose quality menu offers neither the requested tier nor the automatic entry.\<close>

definition no_choice_env :: env where
  "no_choice_env =
     quiet_env\<lparr>click := (\<lambda>sel. if sel = radio_selector ''1080p'' \<or> sel = radio_selector ''Auto''
                                then Some timeout_error else None)\<rparr>"

text \<open>A player that offers no entry for the requested tier, only the automatic one.\<close>

definition no_entry_env :: env where
  "no_entry_env =
     quiet_env\<lparr>click := (\<lambda>sel. if sel = radio_selector ''1080p'' then Some timeout_error else None)\<rparr>"

text \<open>A call of the screenshot tool with an output path and the tier hd1080.\<close>

definition sample_args :: args where
  "sample_args =
     \<lparr>url = ''https://youtu.be/nM_6OzE6OJY?t=83'', outputPath = Some ''shot.png'',
      waitTime = 100, quality = Hd1080\<rparr>"

text \<open>A page whose player never shows up.\<close>

definition no_player_env :: env where
  "no_player_env = quiet_env\<lparr>waitForSelector := Some timeout_error\<rparr>"

text \<open>A capture that reports success but leaves no file behind.\<close>

definition no_file_env :: env where
  "no_file_env = quiet_env\<lparr>stat := (\<lambda>_. Inl (Error ''Error'' ''ENOENT: no such file or directory''))\<rparr>"

text \<open>A page whose video element is gone by the time of the capture.\<close>

definition no_element_env :: env where
  "no_element_env = quiet_env\<lparr>queryVideo := Inr False\<rparr>"

text \<open>An address that cannot be loaded.\<close>

definition bad_url_env :: env where
  "bad_url_env = quiet_env\<lparr>goto := (\<lambda>_. Some (Error ''Error'' ''net::ERR_NAME_NOT_RESOLVED''))\<rparr>"

text \<open>The navigations that went through among the events of a trace.\<close>

fun is_navigation :: "event \<Rightarrow> bool" where
  "is_navigation (Ext (Goto p u w) None) = True"
| "is_navigation ev = False"

text \<open>The result get-video-info gives when its guard fails (lines 293-297, 340-350).\<close>

definition no_page_result :: call_tool_result where
  "no_page_result =
     \<lparr>content = [''Failed to get video info: No browser page available. Please load a video first.''],
      isError = True\<rparr>"

text \<open>A process without sessions, one with a session, and a second identifier.\<close>

definition empty_process :: process where
  "empty_process = \<lparr>transports = Map.empty, outside = empty_world\<rparr>"

definition one_session :: process where
  "one_session = \<lparr>transports = [''session-1'' \<mapsto> getServer], outside = empty_world\<rparr>"

definition second_env :: env where
  "second_env = quiet_env\<lparr>randomUUID := ''session-2''\<rparr>"

definition initialize_request :: request where
  "initialize_request = \<lparr>mcp_session_id = None, body = Initialize\<rparr>"

definition empty_header_request :: request where
  "empty_header_request = \<lparr>mcp_session_id = Some [], body = Initialize\<rparr>"

definition screenshot_request :: "string \<Rightarrow> request" where
  "screenshot_request sid =
     \<lparr>mcp_session_id = Some sid,
      body = CallTool (YoutubeScreenshot ''https://youtu.be/nM_6OzE6OJY?t=83''
               (Some ''shot.png'') None None)\<rparr>"

text \<open>
  Two clients initialize a session each, then each of them takes a screenshot in its
  own session.
\<close>

definition two_sessions :: process where
  "two_sessions =
     (let P1 = snd (mcpPostHandler quiet_env initialize_request empty_process);
          P2 = snd (mcpPostHandler second_env initialize_request P1);
          P3 = snd (mcpPostHandler quiet_env (screenshot_request ''session-1'') P2)
      in snd (mcpPostHandler quiet_env (screenshot_request ''session-2'') P3))"

text \<open>The screenshot calls among the events of a trace.\<close>

fun is_screenshot :: "event \<Rightarrow> bool" where
  "is_screenshot (Ext (ElementScreenshot p path t) r) = True"
| "is_screenshot (Ext (PageScreenshot p path t full) r) = True"
| "is_screenshot ev = False"

text \<open>A server that has a browser and a page open.\<close>

definition loaded_state :: st where
  "loaded_state = (\<lparr>browser = Some 0, page = Some 1\<rparr>,
     \<lparr>fresh = 2, browsers = [0], pages = [1], trace = []\<rparr>)"

section \<open>Properties\<close>

subsection \<open>cleanup and the cleanup-browser tool\<close>

lemma cleanup_cases:
  "cleanup e (c, w) =
     (case page c of
        None \<Rightarrow>
          (case browser c of
             None \<Rightarrow> (Inr (), (c, w))
           | Some b \<Rightarrow>
               (case closeBrowser e of
                  Some err \<Rightarrow> (Inl err, (c, w\<lparr>trace := trace w @ [Ext (CloseBrowser b) (Some err)]\<rparr>))
                | None \<Rightarrow> (Inr (), (c\<lparr>browser := None\<rparr>,
                     w\<lparr>browsers := removeAll b (browsers w),
                       trace := trace w @ [Ext (CloseBrowser b) None]\<rparr>))))
      | Some p \<Rightarrow>
          (case closePage e of
             Some err \<Rightarrow> (Inl err, (c, w\<lparr>trace := trace w @ [Ext (ClosePage p) (Some err)]\<rparr>))
           | None \<Rightarrow>
               (case browser c of
                  None \<Rightarrow> (Inr (), (c\<lparr>page := None\<rparr>,
                     w\<lparr>pages := removeAll p (pages w), trace := trace w @ [Ext (ClosePage p) None]\<rparr>))
                | Some b \<Rightarrow>
                   (case closeBrowser e of
                      Some err \<Rightarrow> (Inl err, (c\<lparr>page := None\<rparr>,
                         w\<lparr>pages := removeAll p (pages w),
                           trace := trace w @ [Ext (ClosePage p) None, Ext (CloseBrowser b) (Some err)]\<rparr>))
                    | None \<Rightarrow> (Inr (), (c\<lparr>page := None, browser := None\<rparr>,
                         w\<lparr>pages := removeAll p (pages w), browsers := removeAll b (browsers w),
                           trace := trace w @ [Ext (ClosePage p) None, Ext (CloseBrowser b) None]\<rparr>))))))"
  by (simp add: cleanup_def then_do_def close_page_def close_browser_def record_event_def
      split: option.splits)

lemma cleanup_browser_cases:
  "cleanup_browser e (c, w) =
     (case cleanup e (c, w\<lparr>trace := trace w @ [Notification Info ''Cleaning up browser resources...'']\<rparr>) of
        (Inr _, s') \<Rightarrow>
          (\<lparr>content = [''Browser resources cleaned up successfully''], isError = False\<rparr>, s')
      | (Inl error, s') \<Rightarrow> (error_result ''Failed to cleanup browser: '' error, s'))"
  by (simp add: cleanup_browser_def then_do_def sendNotification_def record_event_def)

text \<open>
  C4. \<open>cleanup\<close> closes the page before the browser: the page's close is traced first
  and the browser's close follows unless the page's close threw. Whenever \<open>cleanup\<close>
  returns, both handles are absent and no longer open. The cleanup-browser tool does
  just that after its notification: its trace is the notification, the page's close and
  the browser's close in this order; it reports success exactly when no close it
  attempted threw, and then both handles are absent and no longer open. On a server
  without browser and page the tool closes nothing and reports success. Calling the tool
  twice in a row gives the result and the state of calling it once; after a call that
  reported success the second call reports success whatever the environment does.
\<close>

theorem cleanup_page_then_browser_idempotent:
  fixes c :: server_state
  shows
  "trace (snd (snd (cleanup e (c, w)))) =
     trace w
     @ (case page c of None \<Rightarrow> [] | Some p \<Rightarrow> [Ext (ClosePage p) (closePage e)])
     @ (if page c \<noteq> None \<and> closePage e \<noteq> None then []
        else (case browser c of None \<Rightarrow> [] | Some b \<Rightarrow> [Ext (CloseBrowser b) (closeBrowser e)]))
   \<and> (fst (cleanup e (c, w)) = Inr () \<longrightarrow>
        fst (snd (cleanup e (c, w))) = \<lparr>browser = None, page = None\<rparr> \<and>
        pages (snd (snd (cleanup e (c, w)))) =
          (case page c of None \<Rightarrow> pages w | Some p \<Rightarrow> removeAll p (pages w)) \<and>
        browsers (snd (snd (cleanup e (c, w)))) =
          (case browser c of None \<Rightarrow> browsers w | Some b \<Rightarrow> removeAll b (browsers w)))
   \<and> trace (snd (snd (cleanup_browser e (c, w)))) =
       trace w
       @ [Notification Info ''Cleaning up browser resources...'']
       @ (case page c of None \<Rightarrow> [] | Some p \<Rightarrow> [Ext (ClosePage p) (closePage e)])
       @ (if page c \<noteq> None \<and> closePage e \<noteq> None then []
          else (case browser c of None \<Rightarrow> [] | Some b \<Rightarrow> [Ext (CloseBrowser b) (closeBrowser e)]))
   \<and> fst (cleanup_browser e (c, w)) =
       (case (if page c = None then None else closePage e) of
          Some err \<Rightarrow>
            \<lparr>content = [''Failed to cleanup browser: '' @ error_message err], isError = True\<rparr>
        | None \<Rightarrow>
            (case (if browser c = None then None else closeBrowser e) of
               Some err \<Rightarrow>
                 \<lparr>content = [''Failed to cleanup browser: '' @ error_message err], isError = True\<rparr>
             | None \<Rightarrow>
                 \<lparr>content = [''Browser resources cleaned up successfully''], isError = False\<rparr>))
   \<and> (\<not> isError (fst (cleanup_browser e (c, w))) \<longrightarrow>
        fst (snd (cleanup_browser e (c, w))) = \<lparr>browser = None, page = None\<rparr> \<and>
        pages (snd (snd (cleanup_browser e (c, w)))) =
          (case page c of None \<Rightarrow> pages w | Some p \<Rightarrow> removeAll p (pages w)) \<and>
        browsers (snd (snd (cleanup_browser e (c, w)))) =
          (case browser c of None \<Rightarrow> browsers w | Some b \<Rightarrow> removeAll b (browsers w)))
   \<and> cleanup_browser e (\<lparr>browser = None, page = None\<rparr>, w) =
        (\<lparr>content = [''Browser resources cleaned up successfully''], isError = False\<rparr>,
         (\<lparr>browser = None, page = None\<rparr>,
          w\<lparr>trace := trace w @ [Notification Info ''Cleaning up browser resources...'']\<rparr>))
   \<and> fst (cleanup_browser e (snd (cleanup_browser e (c, w)))) = fst (cleanup_browser e (c, w))
   \<and> fst (snd (cleanup_browser e (snd (cleanup_browser e (c, w))))) =
        fst (snd (cleanup_browser e (c, w)))
   \<and> browsers (snd (snd (cleanup_browser e (snd (cleanup_browser e (c, w)))))) =
        browsers (snd (snd (cleanup_browser e (c, w))))
   \<and> pages (snd (snd (cleanup_browser e (snd (cleanup_browser e (c, w)))))) =
        pages (snd (snd (cleanup_browser e (c, w))))
   \<and> (\<not> isError (fst (cleanup_browser e (c, w))) \<longrightarrow>
        fst (cleanup_browser e' (snd (cleanup_browser e (c, w)))) = fst (cleanup_browser e (c, w)) \<and>
        fst (snd (cleanup_browser e' (snd (cleanup_browser e (c, w))))) =
          fst (snd (cleanup_browser e (c, w))))"
  by (cases "page c"; cases "closePage e"; cases "browser c"; cases "closeBrowser e";
      simp add: cleanup_browser_cases cleanup_cases error_result_def)

theorem cleanup_page_then_browser_idempotent_witness:
  "fst (cleanup quiet_env loaded_state) = Inr () \<and>
   snd (cleanup quiet_env loaded_state) =
     (\<lparr>browser = None, page = None\<rparr>,
      \<lparr>fresh = 2, browsers = [], pages = [],
       trace = [Ext (ClosePage 1) None, Ext (CloseBrowser 0) None]\<rparr>) \<and>
   \<not> isError (fst (cleanup_browser quiet_env loaded_state)) \<and>
   cleanup_browser quiet_env loaded_state =
     (\<lparr>content = [''Browser resources cleaned up successfully''], isError = False\<rparr>,
      (\<lparr>browser = None, page = None\<rparr>,
       \<lparr>fresh = 2, browsers = [], pages = [],
        trace = [Notification Info ''Cleaning up browser resources...'',
          Ext (ClosePage 1) None, Ext (CloseBrowser 0) None]\<rparr>)) \<and>
   fst (cleanup_browser (quiet_env\<lparr>closePage := Some timeout_error\<rparr>)
          (snd (cleanup_browser quiet_env loaded_state))) =
     \<lparr>content = [''Browser resources cleaned up successfully''], isError = False\<rparr>"
  using cleanup_page_then_browser_idempotent
    [of quiet_env "fst loaded_state" "snd loaded_state" "quiet_env\<lparr>closePage := Some timeout_error\<rparr>"]
  by (simp add: loaded_state_def quiet_env_def cleanup_cases cleanup_browser_cases)

subsection \<open>Stepping through the handlers\<close>

lemma then_do_sendNotification [simp]:
  "then_do (sendNotification l d) f s = f () (record_event (Notification l d) s)"
  by (simp add: then_do_def sendNotification_def)

lemma then_do_ext [simp]:
  "then_do (ext c outcome) f s =
     (case outcome of None \<Rightarrow> f () (record_event (Ext c None) s)
      | Some err \<Rightarrow> (Inl err, record_event (Ext c (Some err)) s))"
  by (simp add: then_do_def ext_def split: option.splits)

lemma then_do_ext_value [simp]:
  "then_do (ext_value c outcome) f s =
     (case outcome of Inr a \<Rightarrow> f a (record_event (Ext c None) s)
      | Inl err \<Rightarrow> (Inl err, record_event (Ext c (Some err)) s))"
  by (simp add: then_do_def ext_value_def split: sum.splits)

lemma set_quality_appends:
  "set_quality e p q s =
     (Inr (), (fst s, (snd s)\<lparr>trace := trace (snd s) @ negotiation_trace e p q\<rparr>))"
  by (cases "click e settings_selector"; cases "waitAfterSettings e";
      cases "click e quality_item_selector"; cases "waitAfterQuality e";
      cases "click e (radio_selector (qualityMap q))"; cases "click e (radio_selector ''Auto'')";
      cases "click e ''video''";
      simp add: negotiation_trace_def set_quality_def set_quality_try_def try_catch_def
        then_do_def ext_def sendNotification_def empty_world_def Let_def record_event_def)

lemma then_do_set_quality [simp]:
  "then_do (set_quality e p q) f s =
     f () (fst s, (snd s)\<lparr>trace := trace (snd s) @ negotiation_trace e p q\<rparr>)"
  by (simp add: then_do_def set_quality_appends)

lemma then_do_initBrowser:
  "then_do (initBrowser e) f s =
     (case initBrowser e s of (Inl err, s') \<Rightarrow> (Inl err, s') | (Inr a, s') \<Rightarrow> f a s')"
  by (simp add: then_do_def)

lemma then_do_require_page [simp]:
  "then_do require_page f s =
     (case page (fst s) of
        None \<Rightarrow> (Inl (new_Error ''Failed to initialize browser page''), s)
      | Some p \<Rightarrow> f p s)"
  by (simp add: then_do_def require_page_def split: option.splits)

lemma verify_file_result:
  "verify_file e path u q s =
     (case stat e path of
        Inl err \<Rightarrow>
          (Inl (new_Error (''Screenshot file was not created: '' @ to_string err)),
           record_event (Ext (Stat path) (Some err)) s)
      | Inr bytes \<Rightarrow>
          (Inr \<lparr>content = [success_text path (fileSizeKB bytes) u q], isError = False\<rparr>,
           record_event (Ext (Stat path) None) s))"
  by (simp add: verify_file_def try_catch_def return_def throw_def split: sum.splits)

lemma then_do_take_screenshot:
  "then_do (take_screenshot e p path) f s =
     (case queryVideo e of
        Inl err \<Rightarrow> (Inl err, record_event (Ext (Query p ''video'') (Some err)) s)
      | Inr v \<Rightarrow>
          then_do (ext (if v then ElementScreenshot p path ''png''
                        else PageScreenshot p path ''png'' False)
                     (if v then elementScreenshot e else pageScreenshot e)) f
            (record_event (Ext (Query p ''video'') None) s))"
  by (simp add: take_screenshot_def then_do_def ext_value_def split: sum.splits)

lemma youtube_screenshot_result:
  "fst (youtube_screenshot e a s) =
     (case initBrowser e (record_event (Notification Info ''Initializing browser...'') s) of
        (Inl err, _) \<Rightarrow> failed err
      | (Inr _, s1) \<Rightarrow>
     (case page (fst s1) of
        None \<Rightarrow> failed (new_Error ''Failed to initialize browser page'')
      | Some p \<Rightarrow>
     (case goto e (url a) of Some err \<Rightarrow> failed err | None \<Rightarrow>
     (case waitForSelector e of Some err \<Rightarrow> failed err | None \<Rightarrow>
     (case waitStabilize e of Some err \<Rightarrow> failed err | None \<Rightarrow>
     (case queryVideo e of Inl err \<Rightarrow> failed err | Inr v \<Rightarrow>
     (case (if v then elementScreenshot e else pageScreenshot e) of
        Some err \<Rightarrow> failed err | None \<Rightarrow>
     (case stat e (fullPath e a) of
        Inl err \<Rightarrow> failed (new_Error (''Screenshot file was not created: '' @ to_string err))
      | Inr bytes \<Rightarrow>
          \<lparr>content = [success_text (fullPath e a) (fileSizeKB bytes) (url a) (quality a)],
           isError = False\<rparr>))))))))"
proof -
  note defs = youtube_screenshot_def youtube_screenshot_try_def then_do_initBrowser failed_def
  obtain r s1 where init:
    "initBrowser e (record_event (Notification Info ''Initializing browser...'') s) = (r, s1)"
    by (meson surj_pair)
  show ?thesis
  proof (cases r)
    case (Inl err)
    with init show ?thesis by (simp add: defs)
  next
    case (Inr u)
    note init = init [unfolded Inr]
    show ?thesis
    proof (cases "page (fst s1)")
      case None
      with init show ?thesis by (simp add: defs)
    next
      case (Some p)
      note st = init Some
      consider (g) err where "goto e (url a) = Some err"
        | (w) err where "goto e (url a) = None" "waitForSelector e = Some err"
        | (t) err where "goto e (url a) = None" "waitForSelector e = None"
            "waitStabilize e = Some err"
        | (ok) "goto e (url a) = None" "waitForSelector e = None" "waitStabilize e = None"
        by (cases "goto e (url a)"; cases "waitForSelector e"; cases "waitStabilize e") auto
      then show ?thesis
      proof cases
        case g
        with st show ?thesis by (simp add: defs)
      next
        case w
        with st show ?thesis by (simp add: defs)
      next
        case t
        with st show ?thesis by (simp add: defs)
      next
        case ok
        note st = st ok
        show ?thesis
        proof (cases "queryVideo e")
          case (Inl err)
          with st show ?thesis by (simp add: defs then_do_take_screenshot)
        next
          case (Inr v)
          note st = st Inr
          show ?thesis
          proof (cases "if v then elementScreenshot e else pageScreenshot e")
            case (Some err)
            with st show ?thesis
              by (simp add: defs then_do_take_screenshot)
          next
            case None
            with st show ?thesis
              by (cases "stat e (fullPath e a)")
                (simp_all add: defs then_do_take_screenshot verify_file_result)
          qed
        qed
      qed
    qed
  qed
qed


subsection \<open>initBrowser\<close>

lemma initBrowser_cases:
  "initBrowser e (c, w) =
     (case browser c of
        Some b \<Rightarrow>
          (case page c of
             Some p \<Rightarrow> (Inr (), (c, w))
           | None \<Rightarrow>
               (case newPage e of
                  Some err \<Rightarrow> (Inl err, (c, w\<lparr>trace := trace w @ [Ext (NewPage b) (Some err)]\<rparr>))
                | None \<Rightarrow>
                    (case setViewportSize e of None \<Rightarrow> Inr () | Some err \<Rightarrow> Inl err,
                     (c\<lparr>page := Some (fresh w)\<rparr>,
                      w\<lparr>fresh := Suc (fresh w), pages := pages w @ [fresh w],
                        trace := trace w @ [Ext (NewPage b) None,
                          Ext (SetViewportSize (fresh w) 1920 1080) (setViewportSize e)]\<rparr>))))
      | None \<Rightarrow>
          (case launch e of
             Some err \<Rightarrow> (Inl err, (c, w\<lparr>trace := trace w @ [Ext Launch (Some err)]\<rparr>))
           | None \<Rightarrow>
               (case page c of
                  Some p \<Rightarrow> (Inr (), (c\<lparr>browser := Some (fresh w)\<rparr>,
                     w\<lparr>fresh := Suc (fresh w), browsers := browsers w @ [fresh w],
                       trace := trace w @ [Ext Launch None]\<rparr>))
                | None \<Rightarrow>
                    (case newPage e of
                       Some err \<Rightarrow> (Inl err, (c\<lparr>browser := Some (fresh w)\<rparr>,
                          w\<lparr>fresh := Suc (fresh w), browsers := browsers w @ [fresh w],
                            trace := trace w @ [Ext Launch None, Ext (NewPage (fresh w)) (Some err)]\<rparr>))
                     | None \<Rightarrow>
                         (case setViewportSize e of None \<Rightarrow> Inr () | Some err \<Rightarrow> Inl err,
                          (c\<lparr>browser := Some (fresh w), page := Some (Suc (fresh w))\<rparr>,
                           w\<lparr>fresh := Suc (Suc (fresh w)), browsers := browsers w @ [fresh w],
                             pages := pages w @ [Suc (fresh w)],
                             trace := trace w @ [Ext Launch None, Ext (NewPage (fresh w)) None,
                               Ext (SetViewportSize (Suc (fresh w)) 1920 1080)
                                 (setViewportSize e)]\<rparr>))))))"
  by (cases "browser c"; cases "page c"; cases "launch e"; cases "newPage e";
      cases "setViewportSize e";
      simp add: initBrowser_def then_do_def launch_browser_def open_page_def ext_def
        record_event_def Let_def)

lemma initBrowser_success:
  assumes "initBrowser e s = (Inr (), s1)"
  shows "browser (fst s1) = Some (case browser (fst s) of Some b \<Rightarrow> b | None \<Rightarrow> fresh (snd s))"
    and "page (fst s1) =
           Some (case page (fst s) of Some p \<Rightarrow> p
                 | None \<Rightarrow> (case browser (fst s) of Some b \<Rightarrow> fresh (snd s)
                             | None \<Rightarrow> Suc (fresh (snd s))))"
    and "browsers (snd s1) =
           browsers (snd s) @ (case browser (fst s) of Some b \<Rightarrow> [] | None \<Rightarrow> [fresh (snd s)])"
    and "pages (snd s1) =
           pages (snd s) @
           (case page (fst s) of Some p \<Rightarrow> []
            | None \<Rightarrow> (case browser (fst s) of Some b \<Rightarrow> [fresh (snd s)]
                        | None \<Rightarrow> [Suc (fresh (snd s))]))"
  using assms
  by (cases s; cases "browser (fst s)"; cases "page (fst s)"; cases "launch e"; cases "newPage e";
      cases "setViewportSize e"; auto simp add: initBrowser_cases)+


lemma initBrowser_reuse:
  "browser (fst s) \<noteq> None \<Longrightarrow> page (fst s) \<noteq> None \<Longrightarrow> initBrowser e s = (Inr (), s)"
  by (cases s) (auto simp add: initBrowser_cases)

subsection \<open>The quality block\<close>

lemma radio_selector_eq [simp]: "radio_selector l = radio_selector l' \<longleftrightarrow> l = l'"
  by (simp add: radio_selector_def)

lemma qualityMap_not_Auto [simp]: "qualityMap q \<noteq> ''Auto''"
  by (cases q) simp_all

lemma Auto_not_qualityMap [simp]: "''Auto'' \<noteq> qualityMap q"
  by (cases q) simp_all

lemma negotiation_trace_cases:
  "negotiation_trace e p q =
     (let warn = (\<lambda>err. Notification Warning (''Could not set video quality: '' @ to_string err));
          target = radio_selector (qualityMap q);
          auto = radio_selector ''Auto''
      in
      case click e settings_selector of
        Some err \<Rightarrow> [Ext (Click p settings_selector (Some 5000)) (Some err), warn err]
      | None \<Rightarrow> Ext (Click p settings_selector (Some 5000)) None #
     (case waitAfterSettings e of
        Some err \<Rightarrow> [Ext (WaitForTimeout p 1000) (Some err), warn err]
      | None \<Rightarrow> Ext (WaitForTimeout p 1000) None #
     (case click e quality_item_selector of
        Some err \<Rightarrow> [Ext (Click p quality_item_selector (Some 5000)) (Some err), warn err]
      | None \<Rightarrow> Ext (Click p quality_item_selector (Some 5000)) None #
     (case waitAfterQuality e of
        Some err \<Rightarrow> [Ext (WaitForTimeout p 1000) (Some err), warn err]
      | None \<Rightarrow> Ext (WaitForTimeout p 1000) None #
     (case click e target of
        None \<Rightarrow> Ext (Click p target (Some 3000)) None #
          (case click e ''video'' of
             None \<Rightarrow> [Ext (Click p ''video'' None) None]
           | Some err \<Rightarrow> [Ext (Click p ''video'' None) (Some err), warn err])
      | Some err0 \<Rightarrow> Ext (Click p target (Some 3000)) (Some err0) #
          (case click e auto of
             Some err \<Rightarrow> [Ext (Click p auto (Some 3000)) (Some err), warn err]
           | None \<Rightarrow> Ext (Click p auto (Some 3000)) None #
               (case click e ''video'' of
                  None \<Rightarrow> [Ext (Click p ''video'' None) None]
                | Some err \<Rightarrow> [Ext (Click p ''video'' None) (Some err), warn err])))))))"
  by (cases "click e settings_selector"; cases "waitAfterSettings e";
      cases "click e quality_item_selector"; cases "waitAfterQuality e";
      cases "click e (radio_selector (qualityMap q))"; cases "click e (radio_selector ''Auto'')";
      cases "click e ''video''";
      simp add: negotiation_trace_def set_quality_def set_quality_try_def try_catch_def
        then_do_def ext_def sendNotification_def empty_world_def Let_def record_event_def
        getServer_def)

lemma selects_target:
  "selects e p q (qualityMap q) \<longleftrightarrow>
     menus_open e \<and> click e (radio_selector (qualityMap q)) = None"
  by (auto simp add: selects_def menus_open_def negotiation_trace_cases Let_def
      split: option.splits)

lemma selects_Auto:
  "selects e p q ''Auto'' \<longleftrightarrow>
     menus_open e \<and> click e (radio_selector (qualityMap q)) \<noteq> None \<and>
     click e (radio_selector ''Auto'') = None"
  by (auto simp add: selects_def menus_open_def negotiation_trace_cases Let_def
      split: option.splits)

lemma no_menu_no_selection: "\<not> menus_open e \<Longrightarrow> \<not> selects e p q label"
  by (auto simp add: selects_def menus_open_def negotiation_trace_cases Let_def
      split: option.splits)

lemma selects_iff:
  "selects e p q label \<longleftrightarrow>
     menus_open e \<and>
     (label = qualityMap q \<and> click e (radio_selector (qualityMap q)) = None \<or>
      label = ''Auto'' \<and> click e (radio_selector (qualityMap q)) \<noteq> None \<and>
      click e (radio_selector ''Auto'') = None)"
  by (cases "click e settings_selector"; cases "waitAfterSettings e";
      cases "click e quality_item_selector"; cases "waitAfterQuality e";
      cases "click e (radio_selector (qualityMap q))"; cases "click e (radio_selector ''Auto'')";
      cases "click e ''video''";
      auto simp add: selects_def menus_open_def negotiation_trace_cases Let_def)

lemma warning_iff:
  "(\<exists>msg. Notification Warning msg \<in> set (negotiation_trace e p q)) \<longleftrightarrow>
     \<not> (menus_open e \<and>
        (click e (radio_selector (qualityMap q)) = None \<or> click e (radio_selector ''Auto'') = None) \<and>
        click e ''video'' = None)"
  by (cases "click e settings_selector"; cases "waitAfterSettings e";
      cases "click e quality_item_selector"; cases "waitAfterQuality e";
      cases "click e (radio_selector (qualityMap q))"; cases "click e (radio_selector ''Auto'')";
      cases "click e ''video''";
      simp add: menus_open_def negotiation_trace_cases Let_def)

lemma no_screenshot_in_negotiation: "filter is_screenshot (negotiation_trace e p q) = []"
  by (simp add: negotiation_trace_cases Let_def split: option.splits)

lemma launch_browser_ignores_menu:
  "launch_browser (e\<lparr>click := k, waitAfterSettings := x, waitAfterQuality := y\<rparr>) = launch_browser e"
  by (simp add: launch_browser_def fun_eq_iff)

lemma open_page_ignores_menu:
  "open_page (e\<lparr>click := k, waitAfterSettings := x, waitAfterQuality := y\<rparr>) = open_page e"
  by (simp add: open_page_def fun_eq_iff)

lemma initBrowser_ignores_menu:
  "initBrowser (e\<lparr>click := k, waitAfterSettings := x, waitAfterQuality := y\<rparr>) = initBrowser e"
  by (simp add: initBrowser_def launch_browser_ignores_menu open_page_ignores_menu
      cong: option.case_cong)

lemma fullPath_ignores_menu:
  "fullPath (e\<lparr>click := k, waitAfterSettings := x, waitAfterQuality := y\<rparr>) a = fullPath e a"
  by (simp add: fullPath_def output_filename_def cong: option.case_cong if_cong)

lemma result_ignores_menu:
  "fst (youtube_screenshot (e\<lparr>click := k, waitAfterSettings := x, waitAfterQuality := y\<rparr>) a s) =
   fst (youtube_screenshot e a s)"
  by (simp add: youtube_screenshot_result initBrowser_ignores_menu fullPath_ignores_menu
      cong: option.case_cong sum.case_cong prod.case_cong if_cong)

subsection \<open>Successful calls of the screenshot tool\<close>

lemma is_absolute_fullPath: "is_absolute (fullPath e a)"
  by (simp add: fullPath_def path_resolve_def is_absolute_def Let_def)

lemma isError_failed [simp]: "isError (failed err)"
  by (simp add: failed_def error_result_def)

lemma youtube_screenshot_success:
  assumes ok: "\<not> isError (fst (youtube_screenshot e a s))"
  shows "\<exists>bytes. stat e (fullPath e a) = Inr bytes \<and>
    fst (youtube_screenshot e a s) =
      \<lparr>content = [success_text (fullPath e a) (fileSizeKB bytes) (url a) (quality a)],
       isError = False\<rparr>"
proof -
  note res = youtube_screenshot_result [of e a s]
  obtain r s1 where init:
    "initBrowser e (record_event (Notification Info ''Initializing browser...'') s) = (r, s1)"
    by (meson surj_pair)
  have r: "r = Inr ()"
    using ok init by (cases r) (simp_all add: res)
  note init = init [unfolded r]
  obtain p where p: "page (fst s1) = Some p"
    using ok init by (cases "page (fst s1)") (simp_all add: res)
  have g: "goto e (url a) = None"
    using ok init p by (cases "goto e (url a)") (simp_all add: res)
  have w: "waitForSelector e = None"
    using ok init p g by (cases "waitForSelector e") (simp_all add: res)
  have t: "waitStabilize e = None"
    using ok init p g w by (cases "waitStabilize e") (simp_all add: res)
  obtain v where v: "queryVideo e = Inr v"
    using ok init p g w t by (cases "queryVideo e") (simp_all add: res)
  have c: "(if v then elementScreenshot e else pageScreenshot e) = None"
    using ok init p g w t v
    by (cases "if v then elementScreenshot e else pageScreenshot e") (simp_all add: res)
  obtain bytes where b: "stat e (fullPath e a) = Inr bytes"
    using ok init p g w t v c by (cases "stat e (fullPath e a)") (simp_all add: res)
  have "fst (youtube_screenshot e a s) =
      \<lparr>content = [success_text (fullPath e a) (fileSizeKB bytes) (url a) (quality a)],
       isError = False\<rparr>"
    using init p g w t v c b by (simp add: res)
  with b show ?thesis by blast
qed

subsection \<open>What a screenshot call leaves behind\<close>

lemma youtube_screenshot_frame:
  "fst (snd (youtube_screenshot e a s)) =
     fst (snd (initBrowser e (record_event (Notification Info ''Initializing browser...'') s)))
   \<and> fresh (snd (snd (youtube_screenshot e a s))) =
     fresh (snd (snd (initBrowser e (record_event (Notification Info ''Initializing browser...'') s))))
   \<and> browsers (snd (snd (youtube_screenshot e a s))) =
     browsers (snd (snd (initBrowser e (record_event (Notification Info ''Initializing browser...'') s))))
   \<and> pages (snd (snd (youtube_screenshot e a s))) =
     pages (snd (snd (initBrowser e (record_event (Notification Info ''Initializing browser...'') s))))"
proof -
  note defs = youtube_screenshot_def youtube_screenshot_try_def then_do_initBrowser
    then_do_take_screenshot record_event_def verify_file_result
  let ?s0 = "record_event (Notification Info ''Initializing browser...'') s"
  obtain r s1 where init: "initBrowser e ?s0 = (r, s1)"
    by (meson surj_pair)
  show ?thesis
  proof (cases r)
    case (Inl err)
    with init show ?thesis by (simp add: defs)
  next
    case (Inr u)
    with init have init: "initBrowser e ?s0 = (Inr (), s1)"
      by simp
    show ?thesis
    proof (cases "page (fst s1)")
      case None
      with init show ?thesis by (simp add: defs)
    next
      case (Some p)
      note st = init Some
      consider (g) err where "goto e (url a) = Some err"
        | (w) err where "goto e (url a) = None" "waitForSelector e = Some err"
        | (t) err where "goto e (url a) = None" "waitForSelector e = None"
            "waitStabilize e = Some err"
        | (q) err where "goto e (url a) = None" "waitForSelector e = None"
            "waitStabilize e = None" "queryVideo e = Inl err"
        | (ok) v where "goto e (url a) = None" "waitForSelector e = None"
            "waitStabilize e = None" "queryVideo e = Inr v"
        by (cases "goto e (url a)"; cases "waitForSelector e"; cases "waitStabilize e";
            cases "queryVideo e") auto
      then show ?thesis
      proof cases
        case g
        with st show ?thesis by (simp add: defs)
      next
        case w
        with st show ?thesis by (simp add: defs)
      next
        case t
        with st show ?thesis by (simp add: defs)
      next
        case q
        with st show ?thesis by (simp add: defs)
      next
        case ok
        with st show ?thesis
          by (cases "if v then elementScreenshot e else pageScreenshot e";
              cases "stat e (fullPath e a)") (simp_all add: defs)
      qed
    qed
  qed
qed


lemma state_ignores_menu:
  "fst (snd (youtube_screenshot (e\<lparr>click := k, waitAfterSettings := x, waitAfterQuality := y\<rparr>) a s)) =
     fst (snd (youtube_screenshot e a s))
   \<and> fresh (snd (snd (youtube_screenshot (e\<lparr>click := k, waitAfterSettings := x, waitAfterQuality := y\<rparr>) a s))) =
     fresh (snd (snd (youtube_screenshot e a s)))
   \<and> browsers (snd (snd (youtube_screenshot (e\<lparr>click := k, waitAfterSettings := x, waitAfterQuality := y\<rparr>) a s))) =
     browsers (snd (snd (youtube_screenshot e a s)))
   \<and> pages (snd (snd (youtube_screenshot (e\<lparr>click := k, waitAfterSettings := x, waitAfterQuality := y\<rparr>) a s))) =
     pages (snd (snd (youtube_screenshot e a s)))"
  using youtube_screenshot_frame [of "e\<lparr>click := k, waitAfterSettings := x, waitAfterQuality := y\<rparr>" a s]
    youtube_screenshot_frame [of e a s]
  by (simp add: initBrowser_ignores_menu)

lemma call_continues_after_negotiation:
  assumes init: "initBrowser e (record_event (Notification Info ''Initializing browser...'') s) = (Inr (), s1)"
    and p: "page (fst s1) = Some p"
    and g: "goto e (url a) = None"
    and w: "waitForSelector e = None"
  shows "\<exists>rest. trace (snd (snd (youtube_screenshot e a s))) =
     trace (snd s1) @
     [Notification Info (''Loading YouTube video: '' @ url a),
      Ext (Goto p (url a) ''networkidle'') None,
      Ext (WaitForSelector p ''video'' 10000) None,
      Notification Info ''Video player loaded, setting quality...''] @
     negotiation_trace e p (quality a) @
     [Notification Info (''Waiting '' @ show_int (waitTime a) @ ''ms for video to stabilize...''),
      Ext (WaitForTimeout p (waitTime a)) (waitStabilize e)] @ rest"
proof -
  note defs = youtube_screenshot_def youtube_screenshot_try_def then_do_initBrowser
    then_do_take_screenshot record_event_def verify_file_result
  show ?thesis
  proof (cases "waitStabilize e")
    case (Some err)
    with assms show ?thesis by (simp add: defs)
  next
    case None
    note st = assms None
    show ?thesis
    proof (cases "queryVideo e")
      case (Inl err)
      with st show ?thesis by (simp add: defs)
    next
      case (Inr v)
      note st = st Inr
      show ?thesis
      proof (cases "if v then elementScreenshot e else pageScreenshot e")
        case (Some err)
        with st show ?thesis by (simp add: defs)
      next
        case None
        with st show ?thesis
          by (cases "stat e (fullPath e a)") (simp_all add: defs)
      qed
    qed
  qed
qed

subsection \<open>Quality negotiation is best effort\<close>

text \<open>
  C2, as stated, fails: when the settings button cannot be clicked the block is left at
  once, so neither the entry of the requested tier nor the automatic entry is selected.
\<close>

theorem negotiation_selects_or_falls_back_counterexample:
  "negotiation_trace no_settings_env 1 Hd1080 =
     [Ext (Click 1 settings_selector (Some 5000)) (Some timeout_error),
      Notification Warning ''Could not set video quality: TimeoutError: Timeout exceeded.'']
   \<and> \<not> (selects no_settings_env 1 Hd1080 (qualityMap Hd1080) \<or>
          selects no_settings_env 1 Hd1080 ''Auto'')"
proof -
  have m: "\<not> menus_open no_settings_env"
    by (simp add: menus_open_def no_settings_env_def quiet_env_def)
  have "negotiation_trace no_settings_env 1 Hd1080 =
     [Ext (Click 1 settings_selector (Some 5000)) (Some timeout_error),
      Notification Warning ''Could not set video quality: TimeoutError: Timeout exceeded.'']"
    by (simp add: negotiation_trace_cases no_settings_env_def quiet_env_def timeout_error_def
        Let_def)
  with m no_menu_no_selection [of no_settings_env 1 Hd1080] show ?thesis
    by blast
qed

text \<open>
  C2, amended. For every tier the quality block returns normally and only adds to the
  trace, and what it adds is spelled out step by step: the block stops at the first step
  that throws, other than the click on the requested entry, and then sends the warning
  with that error; a failed click on the requested entry is followed by the click on the
  automatic entry. So an entry is selected exactly in two cases: the requested one when
  both menus open and the click on it goes through, the automatic one when both menus
  open, the click on the requested entry fails and the click on the automatic entry goes
  through; when a menu does not open, or neither entry can be clicked, no entry is
  selected at all. A warning is sent exactly when the block is abandoned. In the
  enclosing screenshot call the events of the block are followed by the wait for the
  video to stabilize, and the result, the closure and the open handles of the call are
  the same whatever the clicks and the two menu waits of the block do.
\<close>

theorem negotiation_never_throws:
  "set_quality e p q s =
     (Inr (), (fst s, (snd s)\<lparr>trace := trace (snd s) @ negotiation_trace e p q\<rparr>))
   \<and> (selects e p q (qualityMap q) \<longleftrightarrow>
        menus_open e \<and> click e (radio_selector (qualityMap q)) = None)
   \<and> (selects e p q ''Auto'' \<longleftrightarrow>
        menus_open e \<and> click e (radio_selector (qualityMap q)) \<noteq> None \<and>
        click e (radio_selector ''Auto'') = None)
   \<and> (\<not> menus_open e \<longrightarrow> (\<forall>label. \<not> selects e p q label))
   \<and> fst (youtube_screenshot (e\<lparr>click := k, waitAfterSettings := x, waitAfterQuality := y\<rparr>) a s') =
       fst (youtube_screenshot e a s')
   \<and> negotiation_trace e p q =
       (let warn = (\<lambda>err. Notification Warning (''Could not set video quality: '' @ to_string err));
            target = radio_selector (qualityMap q);
            auto = radio_selector ''Auto''
        in
        case click e settings_selector of
          Some err \<Rightarrow> [Ext (Click p settings_selector (Some 5000)) (Some err), warn err]
        | None \<Rightarrow> Ext (Click p settings_selector (Some 5000)) None #
       (case waitAfterSettings e of
          Some err \<Rightarrow> [Ext (WaitForTimeout p 1000) (Some err), warn err]
        | None \<Rightarrow> Ext (WaitForTimeout p 1000) None #
       (case click e quality_item_selector of
          Some err \<Rightarrow> [Ext (Click p quality_item_selector (Some 5000)) (Some err), warn err]
        | None \<Rightarrow> Ext (Click p quality_item_selector (Some 5000)) None #
       (case waitAfterQuality e of
          Some err \<Rightarrow> [Ext (WaitForTimeout p 1000) (Some err), warn err]
        | None \<Rightarrow> Ext (WaitForTimeout p 1000) None #
       (case click e target of
          None \<Rightarrow> Ext (Click p target (Some 3000)) None #
            (case click e ''video'' of
               None \<Rightarrow> [Ext (Click p ''video'' None) None]
             | Some err \<Rightarrow> [Ext (Click p ''video'' None) (Some err), warn err])
        | Some err0 \<Rightarrow> Ext (Click p target (Some 3000)) (Some err0) #
            (case click e auto of
               Some err \<Rightarrow> [Ext (Click p auto (Some 3000)) (Some err), warn err]
             | None \<Rightarrow> Ext (Click p auto (Some 3000)) None #
                 (case click e ''video'' of
                    None \<Rightarrow> [Ext (Click p ''video'' None) None]
                  | Some err \<Rightarrow> [Ext (Click p ''video'' None) (Some err), warn err])))))))
   \<and> (\<forall>label. selects e p q label \<longleftrightarrow>
        menus_open e \<and>
        (label = qualityMap q \<and> click e (radio_selector (qualityMap q)) = None \<or>
         label = ''Auto'' \<and> click e (radio_selector (qualityMap q)) \<noteq> None \<and>
         click e (radio_selector ''Auto'') = None))
   \<and> ((\<exists>msg. Notification Warning msg \<in> set (negotiation_trace e p q)) \<longleftrightarrow>
        \<not> (menus_open e \<and>
           (click e (radio_selector (qualityMap q)) = None \<or>
            click e (radio_selector ''Auto'') = None) \<and>
           click e ''video'' = None))
   \<and> fst (snd (youtube_screenshot (e\<lparr>click := k, waitAfterSettings := x, waitAfterQuality := y\<rparr>) a s')) =
       fst (snd (youtube_screenshot e a s'))
   \<and> fresh (snd (snd (youtube_screenshot (e\<lparr>click := k, waitAfterSettings := x, waitAfterQuality := y\<rparr>) a s'))) =
       fresh (snd (snd (youtube_screenshot e a s')))
   \<and> browsers (snd (snd (youtube_screenshot (e\<lparr>click := k, waitAfterSettings := x, waitAfterQuality := y\<rparr>) a s'))) =
       browsers (snd (snd (youtube_screenshot e a s')))
   \<and> pages (snd (snd (youtube_screenshot (e\<lparr>click := k, waitAfterSettings := x, waitAfterQuality := y\<rparr>) a s'))) =
       pages (snd (snd (youtube_screenshot e a s')))
   \<and> (initBrowser e (record_event (Notification Info ''Initializing browser...'') s') = (Inr (), s1) \<and>
       goto e (url a) = None \<and> waitForSelector e = None \<longrightarrow>
       (\<exists>pg rest. page (fst s1) = Some pg \<and>
          trace (snd (snd (youtube_screenshot e a s'))) =
            trace (snd s1) @
            [Notification Info (''Loading YouTube video: '' @ url a),
             Ext (Goto pg (url a) ''networkidle'') None,
             Ext (WaitForSelector pg ''video'' 10000) None,
             Notification Info ''Video player loaded, setting quality...''] @
            negotiation_trace e pg (quality a) @
            [Notification Info
               (''Waiting '' @ show_int (waitTime a) @ ''ms for video to stabilize...''),
             Ext (WaitForTimeout pg (waitTime a)) (waitStabilize e)] @ rest))"
proof -
  have call: "initBrowser e (record_event (Notification Info ''Initializing browser...'') s') = (Inr (), s1) \<and>
       goto e (url a) = None \<and> waitForSelector e = None \<longrightarrow>
       (\<exists>pg rest. page (fst s1) = Some pg \<and>
          trace (snd (snd (youtube_screenshot e a s'))) =
            trace (snd s1) @
            [Notification Info (''Loading YouTube video: '' @ url a),
             Ext (Goto pg (url a) ''networkidle'') None,
             Ext (WaitForSelector pg ''video'' 10000) None,
             Notification Info ''Video player loaded, setting quality...''] @
            negotiation_trace e pg (quality a) @
            [Notification Info
               (''Waiting '' @ show_int (waitTime a) @ ''ms for video to stabilize...''),
             Ext (WaitForTimeout pg (waitTime a)) (waitStabilize e)] @ rest)"
  proof
    assume h: "initBrowser e (record_event (Notification Info ''Initializing browser...'') s') = (Inr (), s1) \<and>
       goto e (url a) = None \<and> waitForSelector e = None"
    then have init: "initBrowser e (record_event (Notification Info ''Initializing browser...'') s') = (Inr (), s1)"
      and g: "goto e (url a) = None" and w: "waitForSelector e = None"
      by simp_all
    from initBrowser_success(2) [OF init] obtain pg where pg: "page (fst s1) = Some pg"
      by blast
    from call_continues_after_negotiation [OF init pg g w] pg
    show "\<exists>pg rest. page (fst s1) = Some pg \<and>
          trace (snd (snd (youtube_screenshot e a s'))) =
            trace (snd s1) @
            [Notification Info (''Loading YouTube video: '' @ url a),
             Ext (Goto pg (url a) ''networkidle'') None,
             Ext (WaitForSelector pg ''video'' 10000) None,
             Notification Info ''Video player loaded, setting quality...''] @
            negotiation_trace e pg (quality a) @
            [Notification Info
               (''Waiting '' @ show_int (waitTime a) @ ''ms for video to stabilize...''),
             Ext (WaitForTimeout pg (waitTime a)) (waitStabilize e)] @ rest"
      by blast
  qed
  have sel: "\<forall>label. selects e p q label \<longleftrightarrow>
        menus_open e \<and>
        (label = qualityMap q \<and> click e (radio_selector (qualityMap q)) = None \<or>
         label = ''Auto'' \<and> click e (radio_selector (qualityMap q)) \<noteq> None \<and>
         click e (radio_selector ''Auto'') = None)"
    by (intro allI selects_iff)
  have none: "\<not> menus_open e \<longrightarrow> (\<forall>label. \<not> selects e p q label)"
    using no_menu_no_selection [of e p q] by blast
  show ?thesis
    by (intro conjI set_quality_appends selects_target selects_Auto none result_ignores_menu
        negotiation_trace_cases sel warning_iff call
        state_ignores_menu [THEN conjunct1]
        state_ignores_menu [THEN conjunct2, THEN conjunct1]
        state_ignores_menu [THEN conjunct2, THEN conjunct2, THEN conjunct1]
        state_ignores_menu [THEN conjunct2, THEN conjunct2, THEN conjunct2])
qed

theorem negotiation_never_throws_witness:
  "set_quality no_entry_env 1 Hd1080 loaded_state =
     (Inr (), (fst loaded_state,
        (snd loaded_state)\<lparr>trace :=
           [Ext (Click 1 settings_selector (Some 5000)) None,
            Ext (WaitForTimeout 1 1000) None,
            Ext (Click 1 quality_item_selector (Some 5000)) None,
            Ext (WaitForTimeout 1 1000) None,
            Ext (Click 1 (radio_selector ''1080p'') (Some 3000)) (Some timeout_error),
            Ext (Click 1 (radio_selector ''Auto'') (Some 3000)) None,
            Ext (Click 1 ''video'' None) None]\<rparr>))
   \<and> menus_open no_entry_env
   \<and> selects no_entry_env 1 Hd1080 ''Auto''
   \<and> \<not> selects no_entry_env 1 Hd1080 ''1080p''
   \<and> \<not> menus_open no_settings_env
   \<and> \<not> selects no_settings_env 1 Hd1080 ''Auto''
   \<and> negotiation_trace no_settings_env 1 Hd1080 =
       [Ext (Click 1 settings_selector (Some 5000)) (Some timeout_error),
        Notification Warning ''Could not set video quality: TimeoutError: Timeout exceeded.'']
   \<and> menus_open no_choice_env
   \<and> \<not> selects no_choice_env 1 Hd1080 ''1080p''
   \<and> \<not> selects no_choice_env 1 Hd1080 ''Auto''
   \<and> negotiation_trace no_choice_env 1 Hd1080 =
       [Ext (Click 1 settings_selector (Some 5000)) None,
        Ext (WaitForTimeout 1 1000) None,
        Ext (Click 1 quality_item_selector (Some 5000)) None,
        Ext (WaitForTimeout 1 1000) None,
        Ext (Click 1 (radio_selector ''1080p'') (Some 3000)) (Some timeout_error),
        Ext (Click 1 (radio_selector ''Auto'') (Some 3000)) (Some timeout_error),
        Notification Warning ''Could not set video quality: TimeoutError: Timeout exceeded.'']
   \<and> fst (youtube_screenshot no_settings_env sample_args loaded_state) =
       fst (youtube_screenshot quiet_env sample_args loaded_state)
   \<and> fst (snd (youtube_screenshot no_settings_env sample_args loaded_state)) =
       fst (snd (youtube_screenshot quiet_env sample_args loaded_state))
   \<and> initBrowser no_settings_env
        (record_event (Notification Info ''Initializing browser...'') loaded_state) =
       (Inr (), record_event (Notification Info ''Initializing browser...'') loaded_state)
   \<and> goto no_settings_env (url sample_args) = None
   \<and> waitForSelector no_settings_env = None
   \<and> Notification Warning ''Could not set video quality: TimeoutError: Timeout exceeded.''
        \<in> set (trace (snd (snd (youtube_screenshot no_settings_env sample_args loaded_state))))
   \<and> Ext (WaitForTimeout 1 100) None
        \<in> set (trace (snd (snd (youtube_screenshot no_settings_env sample_args loaded_state))))"
proof -
  let ?start = "record_event (Notification Info ''Initializing browser...'') loaded_state"
  have sel: "settings_selector \<noteq> radio_selector ''1080p''"
    "quality_item_selector \<noteq> radio_selector ''1080p''"
    "''video'' \<noteq> radio_selector ''1080p''"
    "settings_selector \<noteq> radio_selector ''Auto''"
    "quality_item_selector \<noteq> radio_selector ''Auto''"
    "''video'' \<noteq> radio_selector ''Auto''"
    by (simp_all add: settings_selector_def quality_item_selector_def radio_selector_def)
  have upd: "no_settings_env =
      quiet_env\<lparr>click := click no_settings_env, waitAfterSettings := None, waitAfterQuality := None\<rparr>"
    by (simp add: no_settings_env_def quiet_env_def)
  have init: "initBrowser no_settings_env ?start = (Inr (), ?start)"
    by (rule initBrowser_reuse) (simp_all add: record_event_def loaded_state_def)
  have env: "goto no_settings_env (url sample_args) = None" "waitForSelector no_settings_env = None"
    "waitStabilize no_settings_env = None"
    by (simp_all add: no_settings_env_def quiet_env_def)
  note entry = negotiation_never_throws [where e = no_entry_env and p = 1 and q = Hd1080
      and s = loaded_state and k = "click no_entry_env" and x = None and y = None
      and a = sample_args and s' = loaded_state and ?s1.0 = loaded_state]
  note settings = negotiation_never_throws [where e = no_settings_env and p = 1 and q = Hd1080
      and s = loaded_state and k = "click no_settings_env" and x = None and y = None
      and a = sample_args and s' = loaded_state and ?s1.0 = ?start]
  note choice = negotiation_never_throws [where e = no_choice_env and p = 1 and q = Hd1080
      and s = loaded_state and k = "click no_choice_env" and x = None and y = None
      and a = sample_args and s' = loaded_state and ?s1.0 = loaded_state]
  note quiet = negotiation_never_throws [where e = quiet_env and p = 1 and q = Hd1080
      and s = loaded_state and k = "click no_settings_env" and x = None and y = None
      and a = sample_args and s' = loaded_state and ?s1.0 = loaded_state]
  have m1: "menus_open no_entry_env"
    using sel by (simp add: menus_open_def no_entry_env_def quiet_env_def)
  have m2: "\<not> menus_open no_settings_env"
    by (simp add: menus_open_def no_settings_env_def quiet_env_def)
  have m3: "menus_open no_choice_env"
    using sel by (simp add: menus_open_def no_choice_env_def quiet_env_def)
  have c1: "click no_entry_env (radio_selector (qualityMap Hd1080)) = Some timeout_error"
    "click no_entry_env (radio_selector ''Auto'') = None"
    by (simp_all add: no_entry_env_def quiet_env_def)
  have c3: "click no_choice_env (radio_selector (qualityMap Hd1080)) = Some timeout_error"
    "click no_choice_env (radio_selector ''Auto'') = Some timeout_error"
    by (simp_all add: no_choice_env_def quiet_env_def)
  have t1: "negotiation_trace no_entry_env 1 Hd1080 =
           [Ext (Click 1 settings_selector (Some 5000)) None,
            Ext (WaitForTimeout 1 1000) None,
            Ext (Click 1 quality_item_selector (Some 5000)) None,
            Ext (WaitForTimeout 1 1000) None,
            Ext (Click 1 (radio_selector ''1080p'') (Some 3000)) (Some timeout_error),
            Ext (Click 1 (radio_selector ''Auto'') (Some 3000)) None,
            Ext (Click 1 ''video'' None) None]"
    using entry [THEN conjunct2, THEN conjunct2, THEN conjunct2, THEN conjunct2, THEN conjunct2,
        THEN conjunct1] sel
    by (simp add: no_entry_env_def quiet_env_def Let_def)
  have t2: "negotiation_trace no_settings_env 1 Hd1080 =
       [Ext (Click 1 settings_selector (Some 5000)) (Some timeout_error),
        Notification Warning ''Could not set video quality: TimeoutError: Timeout exceeded.'']"
    using settings [THEN conjunct2, THEN conjunct2, THEN conjunct2, THEN conjunct2, THEN conjunct2,
        THEN conjunct1]
    by (simp add: no_settings_env_def quiet_env_def Let_def timeout_error_def)
  have t3: "negotiation_trace no_choice_env 1 Hd1080 =
       [Ext (Click 1 settings_selector (Some 5000)) None,
        Ext (WaitForTimeout 1 1000) None,
        Ext (Click 1 quality_item_selector (Some 5000)) None,
        Ext (WaitForTimeout 1 1000) None,
        Ext (Click 1 (radio_selector ''1080p'') (Some 3000)) (Some timeout_error),
        Ext (Click 1 (radio_selector ''Auto'') (Some 3000)) (Some timeout_error),
        Notification Warning ''Could not set video quality: TimeoutError: Timeout exceeded.'']"
    using choice [THEN conjunct2, THEN conjunct2, THEN conjunct2, THEN conjunct2, THEN conjunct2,
        THEN conjunct1] sel
    by (simp add: no_choice_env_def quiet_env_def Let_def timeout_error_def)
  have r1: "set_quality no_entry_env 1 Hd1080 loaded_state =
     (Inr (), (fst loaded_state,
        (snd loaded_state)\<lparr>trace := trace (snd loaded_state) @ negotiation_trace no_entry_env 1 Hd1080\<rparr>))"
    by (rule entry [THEN conjunct1])
  have s1: "selects no_entry_env 1 Hd1080 ''Auto''" "\<not> selects no_entry_env 1 Hd1080 ''1080p''"
    using entry [THEN conjunct2, THEN conjunct1] entry [THEN conjunct2, THEN conjunct2, THEN conjunct1]
      m1 c1
    by simp_all
  have s2: "\<not> selects no_settings_env 1 Hd1080 ''Auto''"
    using settings [THEN conjunct2, THEN conjunct2, THEN conjunct2, THEN conjunct1] m2
    by blast
  have s3: "\<not> selects no_choice_env 1 Hd1080 ''1080p''" "\<not> selects no_choice_env 1 Hd1080 ''Auto''"
    using choice [THEN conjunct2, THEN conjunct1] choice [THEN conjunct2, THEN conjunct2, THEN conjunct1]
      c3
    by simp_all
  have f1: "fst (youtube_screenshot no_settings_env sample_args loaded_state) =
       fst (youtube_screenshot quiet_env sample_args loaded_state)"
    using quiet [THEN conjunct2, THEN conjunct2, THEN conjunct2, THEN conjunct2, THEN conjunct1]
    unfolding upd [symmetric] .
  have f2: "fst (snd (youtube_screenshot no_settings_env sample_args loaded_state)) =
       fst (snd (youtube_screenshot quiet_env sample_args loaded_state))"
    using quiet [THEN conjunct2, THEN conjunct2, THEN conjunct2, THEN conjunct2, THEN conjunct2,
        THEN conjunct2, THEN conjunct2, THEN conjunct2, THEN conjunct1]
    unfolding upd [symmetric] .
  from settings [THEN conjunct2, THEN conjunct2, THEN conjunct2, THEN conjunct2, THEN conjunct2, THEN conjunct2, THEN conjunct2, THEN conjunct2, THEN conjunct2, THEN conjunct2, THEN conjunct2, THEN conjunct2] init env(1,2)
  obtain pg rest where pg: "page (fst ?start) = Some pg"
    and tr: "trace (snd (snd (youtube_screenshot no_settings_env sample_args loaded_state))) =
            trace (snd ?start) @
            [Notification Info (''Loading YouTube video: '' @ url sample_args),
             Ext (Goto pg (url sample_args) ''networkidle'') None,
             Ext (WaitForSelector pg ''video'' 10000) None,
             Notification Info ''Video player loaded, setting quality...''] @
            negotiation_trace no_settings_env pg (quality sample_args) @
            [Notification Info
               (''Waiting '' @ show_int (waitTime sample_args) @ ''ms for video to stabilize...''),
             Ext (WaitForTimeout pg (waitTime sample_args)) (waitStabilize no_settings_env)] @ rest"
    by blast
  from pg have pg1: "pg = 1"
    by (simp add: record_event_def loaded_state_def)
  have a: "quality sample_args = Hd1080" "waitTime sample_args = 100"
    by (simp_all add: sample_args_def)
  have w1: "Notification Warning ''Could not set video quality: TimeoutError: Timeout exceeded.''
        \<in> set (trace (snd (snd (youtube_screenshot no_settings_env sample_args loaded_state))))"
    unfolding tr pg1 a t2 by simp
  have w2: "Ext (WaitForTimeout 1 100) None
        \<in> set (trace (snd (snd (youtube_screenshot no_settings_env sample_args loaded_state))))"
    unfolding tr pg1 a env by simp
  from r1 [unfolded t1] m1 s1 m2 s2 t2 m3 s3 t3 f1 f2 init env(1,2) w1 w2
  show ?thesis
    by (simp add: loaded_state_def)
qed

subsection \<open>A player that never shows up\<close>

text \<open>
  C7. If \<open>initBrowser\<close> and the navigation go through and the wait for the video
  element throws, the screenshot tool returns an error result (\<open>isError\<close> set) carrying
  the message of that error. Nothing is attempted after the failed wait: the trace ends
  with the failed wait and the error notification. The closure keeps the browser and the
  page that \<open>initBrowser\<close> left, and the open browsers and pages of the world are those
  after \<open>initBrowser\<close>: nothing is closed or reset.
\<close>

theorem player_timeout_is_fatal:
  assumes "initBrowser e (record_event (Notification Info ''Initializing browser...'') s) = (Inr (), s1)"
    and "goto e (url a) = None"
    and "waitForSelector e = Some err"
  shows "\<exists>b p. browser (fst s1) = Some b \<and> page (fst s1) = Some p \<and>
    youtube_screenshot e a s =
      (\<lparr>content = [''Failed to take YouTube screenshot: '' @ error_message err], isError = True\<rparr>,
       (fst s1,
        (snd s1)\<lparr>trace := trace (snd s1) @
          [Notification Info (''Loading YouTube video: '' @ url a),
           Ext (Goto p (url a) ''networkidle'') None,
           Ext (WaitForSelector p ''video'' 10000) (Some err),
           Notification Err (''Error: '' @ to_string err)]\<rparr>))"
proof -
  from initBrowser_success(1,2) [OF assms(1)]
  obtain b p where bp: "browser (fst s1) = Some b" "page (fst s1) = Some p"
    by blast
  have "youtube_screenshot e a s =
      (\<lparr>content = [''Failed to take YouTube screenshot: '' @ error_message err], isError = True\<rparr>,
       (fst s1,
        (snd s1)\<lparr>trace := trace (snd s1) @
          [Notification Info (''Loading YouTube video: '' @ url a),
           Ext (Goto p (url a) ''networkidle'') None,
           Ext (WaitForSelector p ''video'' 10000) (Some err),
           Notification Err (''Error: '' @ to_string err)]\<rparr>))"
    using assms bp
    by (simp add: youtube_screenshot_def youtube_screenshot_try_def then_do_initBrowser
        error_result_def record_event_def)
  with bp show ?thesis by blast
qed

theorem player_timeout_is_fatal_witness:
  "initBrowser no_player_env
     (record_event (Notification Info ''Initializing browser...'') (getServer, empty_world)) =
     (Inr (), (\<lparr>browser = Some 0, page = Some 1\<rparr>,
        \<lparr>fresh = 2, browsers = [0], pages = [1],
         trace = [Notification Info ''Initializing browser...'', Ext Launch None,
           Ext (NewPage 0) None, Ext (SetViewportSize 1 1920 1080) None]\<rparr>))
   \<and> goto no_player_env (url sample_args) = None
   \<and> waitForSelector no_player_env = Some timeout_error
   \<and> youtube_screenshot no_player_env sample_args (getServer, empty_world) =
      (\<lparr>content = [''Failed to take YouTube screenshot: Timeout exceeded.''], isError = True\<rparr>,
       (\<lparr>browser = Some 0, page = Some 1\<rparr>,
        \<lparr>fresh = 2, browsers = [0], pages = [1],
         trace = [Notification Info ''Initializing browser...'', Ext Launch None,
           Ext (NewPage 0) None, Ext (SetViewportSize 1 1920 1080) None,
           Notification Info ''Loading YouTube video: https://youtu.be/nM_6OzE6OJY?t=83'',
           Ext (Goto 1 ''https://youtu.be/nM_6OzE6OJY?t=83'' ''networkidle'') None,
           Ext (WaitForSelector 1 ''video'' 10000) (Some timeout_error),
           Notification Err ''Error: TimeoutError: Timeout exceeded.'']\<rparr>))"
proof -
  have h1: "initBrowser no_player_env
     (record_event (Notification Info ''Initializing browser...'') (getServer, empty_world)) =
     (Inr (), (\<lparr>browser = Some 0, page = Some 1\<rparr>,
        \<lparr>fresh = 2, browsers = [0], pages = [1],
         trace = [Notification Info ''Initializing browser...'', Ext Launch None,
           Ext (NewPage 0) None, Ext (SetViewportSize 1 1920 1080) None]\<rparr>))"
    by (simp add: initBrowser_cases record_event_def getServer_def empty_world_def
        no_player_env_def quiet_env_def)
  have h2: "goto no_player_env (url sample_args) = None"
    by (simp add: no_player_env_def quiet_env_def)
  have h3: "waitForSelector no_player_env = Some timeout_error"
    by (simp add: no_player_env_def quiet_env_def)
  from player_timeout_is_fatal [OF h1 h2 h3] h1 h2 h3
  show ?thesis
    by (simp add: sample_args_def timeout_error_def)
qed


subsection \<open>Concrete runs\<close>

lemma sample_path: "cwd e = ''/srv/app'' \<Longrightarrow> fullPath e sample_args = ''/srv/app/shot.png''"
  by (simp add: fullPath_def output_filename_def sample_args_def path_resolve_def
      is_absolute_def)

lemma fresh_start:
  "launch e = None \<Longrightarrow> newPage e = None \<Longrightarrow> setViewportSize e = None \<Longrightarrow>
   initBrowser e
     (record_event (Notification Info ''Initializing browser...'') (getServer, empty_world)) =
     (Inr (), (\<lparr>browser = Some 0, page = Some 1\<rparr>,
        \<lparr>fresh = 2, browsers = [0], pages = [1],
         trace = [Notification Info ''Initializing browser...'', Ext Launch None,
           Ext (NewPage 0) None, Ext (SetViewportSize 1 1920 1080) None]\<rparr>))"
  by (simp add: initBrowser_cases record_event_def getServer_def empty_world_def)

lemma handleRequest_screenshot:
  "fst (handleRequest e (CallTool (YoutubeScreenshot u out wt q)) s) =
     Some (fst (youtube_screenshot e
       \<lparr>url = u, outputPath = out,
        waitTime = (case wt of None \<Rightarrow> 3000 | Some t \<Rightarrow> t),
        quality = (case q of None \<Rightarrow> Highest | Some x \<Rightarrow> x)\<rparr> s))"
  by (simp add: handleRequest_def case_prod_beta)

subsection \<open>Verification of the written file\<close>

text \<open>
  C8. When the call gets as far as the capture and the capture returns, the file is
  looked up at the resolved (absolute) output path. If \<open>stat\<close> throws, the tool returns an
  error result (\<open>isError\<close> set) saying that the screenshot file was not created; if the
  file is there, the result text gives the path, the size in KB (the byte size over 1024,
  rounded half up), the video URL and the quality setting.
\<close>

theorem artifact_is_verified:
  assumes "initBrowser e (record_event (Notification Info ''Initializing browser...'') s) = (Inr (), s1)"
    and "goto e (url a) = None"
    and "waitForSelector e = None"
    and "waitStabilize e = None"
    and "queryVideo e = Inr v"
    and "(if v then elementScreenshot e else pageScreenshot e) = None"
  shows "is_absolute (fullPath e a) \<and>
    fst (youtube_screenshot e a s) =
      (case stat e (fullPath e a) of
         Inl err \<Rightarrow>
           \<lparr>content = [''Failed to take YouTube screenshot: Screenshot file was not created: ''
              @ to_string err],
            isError = True\<rparr>
       | Inr bytes \<Rightarrow>
           \<lparr>content = [''Screenshot successfully saved to: '' @ fullPath e a @
              [CHR ''\<newline>''] @ ''File size: '' @ show_nat ((2 * bytes + 1024) div 2048) @ '' KB'' @
              [CHR ''\<newline>''] @ ''Video URL: '' @ url a @
              [CHR ''\<newline>''] @ ''Quality setting: '' @ quality_name (quality a)],
            isError = False\<rparr>)"
proof -
  from initBrowser_success(2) [OF assms(1)]
  obtain p where "page (fst s1) = Some p"
    by blast
  with assms show ?thesis
    by (simp add: youtube_screenshot_result is_absolute_fullPath failed_def error_result_def
        new_Error_def success_text_def fileSizeKB_def split: sum.splits)
qed

theorem artifact_is_verified_witness:
  "initBrowser no_file_env
     (record_event (Notification Info ''Initializing browser...'') (getServer, empty_world)) =
     (Inr (), (\<lparr>browser = Some 0, page = Some 1\<rparr>,
        \<lparr>fresh = 2, browsers = [0], pages = [1],
         trace = [Notification Info ''Initializing browser...'', Ext Launch None,
           Ext (NewPage 0) None, Ext (SetViewportSize 1 1920 1080) None]\<rparr>))
   \<and> goto no_file_env (url sample_args) = None
   \<and> waitForSelector no_file_env = None
   \<and> waitStabilize no_file_env = None
   \<and> queryVideo no_file_env = Inr True
   \<and> (if True then elementScreenshot no_file_env else pageScreenshot no_file_env) = None
   \<and> fullPath no_file_env sample_args = ''/srv/app/shot.png''
   \<and> fst (youtube_screenshot no_file_env sample_args (getServer, empty_world)) =
       \<lparr>content = [''Failed to take YouTube screenshot: Screenshot file was not created: Error: ENOENT: no such file or directory''],
        isError = True\<rparr>"
proof -
  have h1: "initBrowser no_file_env
     (record_event (Notification Info ''Initializing browser...'') (getServer, empty_world)) =
     (Inr (), (\<lparr>browser = Some 0, page = Some 1\<rparr>,
        \<lparr>fresh = 2, browsers = [0], pages = [1],
         trace = [Notification Info ''Initializing browser...'', Ext Launch None,
           Ext (NewPage 0) None, Ext (SetViewportSize 1 1920 1080) None]\<rparr>))"
    by (rule fresh_start) (simp_all add: no_file_env_def quiet_env_def)
  have h2: "goto no_file_env (url sample_args) = None"
    and h3: "waitForSelector no_file_env = None"
    and h4: "waitStabilize no_file_env = None"
    and h5: "queryVideo no_file_env = Inr True"
    and h6: "(if True then elementScreenshot no_file_env else pageScreenshot no_file_env) = None"
    by (simp_all add: no_file_env_def quiet_env_def)
  have pth: "fullPath no_file_env sample_args = ''/srv/app/shot.png''"
    by (rule sample_path) (simp add: no_file_env_def quiet_env_def)
  have st: "stat no_file_env ''/srv/app/shot.png'' =
      Inl (Error ''Error'' ''ENOENT: no such file or directory'')"
    by (simp add: no_file_env_def quiet_env_def)
  from artifact_is_verified [OF h1 h2 h3 h4 h5 h6] h1 h2 h3 h4 h5 h6 pth st
  show ?thesis by simp
qed

subsection \<open>The quality setting in the result text\<close>

text \<open>
  C10. Every call of the screenshot tool that does not end in an error reports, as
  quality setting, the tier the handler was called with; a call routed from a request
  reports the requested tier, or \<open>highest\<close> when the request names none. The statement
  holds for every environment, so whatever the quality block did: selected the tier,
  fell back to the automatic entry, or was abandoned.
\<close>

theorem reported_quality_is_requested:
  "(\<not> isError (fst (youtube_screenshot e a s)) \<longrightarrow>
      (\<exists>bytes. stat e (fullPath e a) = Inr bytes \<and>
         content (fst (youtube_screenshot e a s)) =
           [''Screenshot successfully saved to: '' @ fullPath e a @
            [CHR ''\<newline>''] @ ''File size: '' @ show_nat (fileSizeKB bytes) @ '' KB'' @
            [CHR ''\<newline>''] @ ''Video URL: '' @ url a @
            [CHR ''\<newline>''] @ ''Quality setting: '' @ quality_name (quality a)]))
   \<and> (\<forall>r. fst (handleRequest e (CallTool (YoutubeScreenshot u out wt q)) s) = Some r \<and>
          \<not> isError r \<longrightarrow>
          (\<exists>head. content r =
             [head @ ''Quality setting: '' @
              quality_name (case q of None \<Rightarrow> Highest | Some x \<Rightarrow> x)]))"
proof (intro conjI impI allI)
  assume "\<not> isError (fst (youtube_screenshot e a s))"
  from youtube_screenshot_success [OF this]
  obtain bytes where b: "stat e (fullPath e a) = Inr bytes"
    and eq: "fst (youtube_screenshot e a s) =
      \<lparr>content = [success_text (fullPath e a) (fileSizeKB bytes) (url a) (quality a)],
       isError = False\<rparr>"
    by blast
  have "content (fst (youtube_screenshot e a s)) =
           [''Screenshot successfully saved to: '' @ fullPath e a @
            [CHR ''\<newline>''] @ ''File size: '' @ show_nat (fileSizeKB bytes) @ '' KB'' @
            [CHR ''\<newline>''] @ ''Video URL: '' @ url a @
            [CHR ''\<newline>''] @ ''Quality setting: '' @ quality_name (quality a)]"
    unfolding eq by (simp add: success_text_def)
  with b show "\<exists>bytes. stat e (fullPath e a) = Inr bytes \<and>
         content (fst (youtube_screenshot e a s)) =
           [''Screenshot successfully saved to: '' @ fullPath e a @
            [CHR ''\<newline>''] @ ''File size: '' @ show_nat (fileSizeKB bytes) @ '' KB'' @
            [CHR ''\<newline>''] @ ''Video URL: '' @ url a @
            [CHR ''\<newline>''] @ ''Quality setting: '' @ quality_name (quality a)]"
    by blast
next
  fix r
  let ?q = "case q of None \<Rightarrow> Highest | Some x \<Rightarrow> x"
  let ?a = "\<lparr>url = u, outputPath = out,
                waitTime = (case wt of None \<Rightarrow> 3000 | Some t \<Rightarrow> t),
                quality = ?q\<rparr>"
  assume asm: "fst (handleRequest e (CallTool (YoutubeScreenshot u out wt q)) s) = Some r \<and> \<not> isError r"
  then have r: "fst (youtube_screenshot e ?a s) = r"
    by (simp add: handleRequest_screenshot)
  from asm have "\<not> isError (fst (youtube_screenshot e ?a s))"
    unfolding r by blast
  from youtube_screenshot_success [OF this]
  obtain bytes where eq: "r =
      \<lparr>content = [success_text (fullPath e ?a) (fileSizeKB bytes) (url ?a) (quality ?a)],
       isError = False\<rparr>"
    unfolding r by blast
  have "content r =
      [(''Screenshot successfully saved to: '' @ fullPath e ?a @
        [CHR ''\<newline>''] @ ''File size: '' @ show_nat (fileSizeKB bytes) @ '' KB'' @
        [CHR ''\<newline>''] @ ''Video URL: '' @ u @ [CHR ''\<newline>'']) @
       ''Quality setting: '' @ quality_name ?q]"
    unfolding eq by (simp add: success_text_def)
  then show "\<exists>head. content r = [head @ ''Quality setting: '' @ quality_name ?q]"
    by blast
qed

theorem reported_quality_is_requested_witness:
  "\<not> isError (fst (youtube_screenshot no_settings_env sample_args (getServer, empty_world)))
   \<and> stat no_settings_env (fullPath no_settings_env sample_args) = Inr 204800
   \<and> content (fst (youtube_screenshot no_settings_env sample_args (getServer, empty_world))) =
       [''Screenshot successfully saved to: /srv/app/shot.png'' @
        [CHR ''\<newline>''] @ ''File size: 200 KB'' @
        [CHR ''\<newline>''] @ ''Video URL: https://youtu.be/nM_6OzE6OJY?t=83'' @
        [CHR ''\<newline>''] @ ''Quality setting: hd1080'']
   \<and> \<not> selects no_settings_env 1 Hd1080 ''1080p''
   \<and> \<not> selects no_settings_env 1 Hd1080 ''Auto''"
proof -
  have h1: "initBrowser no_settings_env
     (record_event (Notification Info ''Initializing browser...'') (getServer, empty_world)) =
     (Inr (), (\<lparr>browser = Some 0, page = Some 1\<rparr>,
        \<lparr>fresh = 2, browsers = [0], pages = [1],
         trace = [Notification Info ''Initializing browser...'', Ext Launch None,
           Ext (NewPage 0) None, Ext (SetViewportSize 1 1920 1080) None]\<rparr>))"
    by (rule fresh_start) (simp_all add: no_settings_env_def quiet_env_def)
  have pth: "fullPath no_settings_env sample_args = ''/srv/app/shot.png''"
    by (rule sample_path) (simp add: no_settings_env_def quiet_env_def)
  have env: "goto no_settings_env (url sample_args) = None"
    "waitForSelector no_settings_env = None" "waitStabilize no_settings_env = None"
    "queryVideo no_settings_env = Inr True" "elementScreenshot no_settings_env = None"
    "stat no_settings_env ''/srv/app/shot.png'' = Inr 204800"
    by (simp_all add: no_settings_env_def quiet_env_def)
  have ok: "\<not> isError (fst (youtube_screenshot no_settings_env sample_args (getServer, empty_world)))"
    using h1 pth env by (simp add: youtube_screenshot_result)
  have kb: "show_nat (fileSizeKB 204800) = ''200''"
    by (simp add: fileSizeKB_def digit_char_def)
  have m: "\<not> menus_open no_settings_env"
    by (simp add: menus_open_def no_settings_env_def quiet_env_def)
  from reported_quality_is_requested [where e = no_settings_env and a = sample_args
      and s = "(getServer, empty_world)"] ok pth env kb m
    no_menu_no_selection [of no_settings_env 1 Hd1080]
  show ?thesis
    by (simp add: sample_args_def)
qed



subsection \<open>The capture\<close>

lemma take_screenshot_cases:
  "take_screenshot e p path s =
     (case queryVideo e of
        Inl err \<Rightarrow>
          (Inl err, (fst s, (snd s)\<lparr>trace := trace (snd s) @ [Ext (Query p ''video'') (Some err)]\<rparr>))
      | Inr v \<Rightarrow>
          ((case (if v then elementScreenshot e else pageScreenshot e) of
              None \<Rightarrow> Inr () | Some err \<Rightarrow> Inl err),
           (fst s, (snd s)\<lparr>trace := trace (snd s) @
              [Ext (Query p ''video'') None,
               if v then Ext (ElementScreenshot p path ''png'') (elementScreenshot e)
               else Ext (PageScreenshot p path ''png'' False) (pageScreenshot e)]\<rparr>)))"
  by (cases "queryVideo e"; cases "elementScreenshot e"; cases "pageScreenshot e")
    (simp_all add: take_screenshot_def then_do_def ext_value_def ext_def record_event_def)

lemma capture_in_call:
  assumes init: "initBrowser e (record_event (Notification Info ''Initializing browser...'') s) = (Inr (), s1)"
    and p: "page (fst s1) = Some p"
    and g: "goto e (url a) = None"
    and w: "waitForSelector e = None"
    and t: "waitStabilize e = None"
    and v: "queryVideo e = Inr v"
  shows "filter is_screenshot (trace (snd (snd (youtube_screenshot e a s)))) =
     filter is_screenshot (trace (snd s1)) @
     [if v then Ext (ElementScreenshot p (fullPath e a) ''png'') (elementScreenshot e)
      else Ext (PageScreenshot p (fullPath e a) ''png'' False) (pageScreenshot e)]"
proof (cases "if v then elementScreenshot e else pageScreenshot e")
  case (Some err)
  with assms show ?thesis
    by (simp add: youtube_screenshot_def youtube_screenshot_try_def then_do_initBrowser
        then_do_take_screenshot record_event_def no_screenshot_in_negotiation split: if_splits)
next
  case None
  with assms show ?thesis
    by (cases "stat e (fullPath e a)")
      (simp_all add: youtube_screenshot_def youtube_screenshot_try_def then_do_initBrowser
        then_do_take_screenshot verify_file_result record_event_def no_screenshot_in_negotiation
        split: if_splits)
qed


lemma no_screenshot_in_initBrowser:
  "filter is_screenshot (trace (snd (snd (initBrowser e s)))) = filter is_screenshot (trace (snd s))"
  by (cases s; cases "browser (fst s)"; cases "page (fst s)"; cases "launch e"; cases "newPage e";
      cases "setViewportSize e"; simp add: initBrowser_cases)

lemma at_most_one_screenshot:
  "length (filter is_screenshot (trace (snd (snd (youtube_screenshot e a s))))) \<le>
   Suc (length (filter is_screenshot (trace (snd s))))"
proof -
  note defs = youtube_screenshot_def youtube_screenshot_try_def then_do_initBrowser
    then_do_take_screenshot record_event_def no_screenshot_in_negotiation
  let ?s0 = "record_event (Notification Info ''Initializing browser...'') s"
  obtain r s1 where init: "initBrowser e ?s0 = (r, s1)"
    by (meson surj_pair)
  from no_screenshot_in_initBrowser [of e ?s0] init
  have s1: "filter is_screenshot (trace (snd s1)) = filter is_screenshot (trace (snd s))"
    by (simp add: record_event_def)
  show ?thesis
  proof (cases r)
    case (Inl err)
    with init s1 show ?thesis by (simp add: defs)
  next
    case (Inr u)
    with init have init: "initBrowser e ?s0 = (Inr (), s1)"
      by simp
    show ?thesis
    proof (cases "page (fst s1)")
      case None
      with init s1 show ?thesis by (simp add: defs)
    next
      case (Some p)
      note st = init Some s1
      consider (g) err where "goto e (url a) = Some err"
        | (w) err where "goto e (url a) = None" "waitForSelector e = Some err"
        | (t) err where "goto e (url a) = None" "waitForSelector e = None"
            "waitStabilize e = Some err"
        | (q) err where "goto e (url a) = None" "waitForSelector e = None"
            "waitStabilize e = None" "queryVideo e = Inl err"
        | (ok) v where "goto e (url a) = None" "waitForSelector e = None"
            "waitStabilize e = None" "queryVideo e = Inr v"
        by (cases "goto e (url a)"; cases "waitForSelector e"; cases "waitStabilize e";
            cases "queryVideo e") auto
      then show ?thesis
      proof cases
        case g
        with st show ?thesis by (simp add: defs)
      next
        case w
        with st show ?thesis by (simp add: defs)
      next
        case t
        with st show ?thesis by (simp add: defs)
      next
        case q
        with st show ?thesis by (simp add: defs)
      next
        case ok
        from capture_in_call [OF init Some ok] s1 show ?thesis by simp
      qed
    qed
  qed
qed


text \<open>
  C9. The capture block asks the page for a video element once. If there is one, the
  element is captured; if and only if there is none, the viewport is captured with
  \<open>fullPage\<close> off; if the query itself throws, nothing is captured. Either capture is a
  PNG written to the path it is given, and a failed capture is not followed by the other
  one. In a call of the tool that path is the resolved output path, the call traces at
  most one capture, and exactly the one described when it gets as far as the query.
\<close>

theorem capture_two_tier:
  "take_screenshot e p path s =
     (case queryVideo e of
        Inl err \<Rightarrow>
          (Inl err, (fst s, (snd s)\<lparr>trace := trace (snd s) @ [Ext (Query p ''video'') (Some err)]\<rparr>))
      | Inr v \<Rightarrow>
          ((case (if v then elementScreenshot e else pageScreenshot e) of
              None \<Rightarrow> Inr () | Some err \<Rightarrow> Inl err),
           (fst s, (snd s)\<lparr>trace := trace (snd s) @
              [Ext (Query p ''video'') None,
               if v then Ext (ElementScreenshot p path ''png'') (elementScreenshot e)
               else Ext (PageScreenshot p path ''png'' False) (pageScreenshot e)]\<rparr>)))
   \<and> length (filter is_screenshot (trace (snd (snd (youtube_screenshot e a s0))))) \<le>
       Suc (length (filter is_screenshot (trace (snd s0))))
   \<and> (initBrowser e (record_event (Notification Info ''Initializing browser...'') s0) = (Inr (), s1) \<and>
       goto e (url a) = None \<and> waitForSelector e = None \<and> waitStabilize e = None \<and>
       queryVideo e = Inr v \<longrightarrow>
       (\<exists>pg. page (fst s1) = Some pg \<and>
          filter is_screenshot (trace (snd (snd (youtube_screenshot e a s0)))) =
            filter is_screenshot (trace (snd s1)) @
            [if v then Ext (ElementScreenshot pg (fullPath e a) ''png'') (elementScreenshot e)
             else Ext (PageScreenshot pg (fullPath e a) ''png'' False) (pageScreenshot e)]))"
proof (intro conjI impI)
  show "take_screenshot e p path s =
     (case queryVideo e of
        Inl err \<Rightarrow>
          (Inl err, (fst s, (snd s)\<lparr>trace := trace (snd s) @ [Ext (Query p ''video'') (Some err)]\<rparr>))
      | Inr v \<Rightarrow>
          ((case (if v then elementScreenshot e else pageScreenshot e) of
              None \<Rightarrow> Inr () | Some err \<Rightarrow> Inl err),
           (fst s, (snd s)\<lparr>trace := trace (snd s) @
              [Ext (Query p ''video'') None,
               if v then Ext (ElementScreenshot p path ''png'') (elementScreenshot e)
               else Ext (PageScreenshot p path ''png'' False) (pageScreenshot e)]\<rparr>)))"
    by (rule take_screenshot_cases)
next
  show "length (filter is_screenshot (trace (snd (snd (youtube_screenshot e a s0))))) \<le>
       Suc (length (filter is_screenshot (trace (snd s0))))"
    by (rule at_most_one_screenshot)
next
  assume h: "initBrowser e (record_event (Notification Info ''Initializing browser...'') s0) = (Inr (), s1) \<and>
       goto e (url a) = None \<and> waitForSelector e = None \<and> waitStabilize e = None \<and>
       queryVideo e = Inr v"
  then have init: "initBrowser e (record_event (Notification Info ''Initializing browser...'') s0) = (Inr (), s1)"
    and g: "goto e (url a) = None" and w: "waitForSelector e = None"
    and t: "waitStabilize e = None" and v: "queryVideo e = Inr v"
    by simp_all
  from initBrowser_success(2) [OF init] obtain pg where pg: "page (fst s1) = Some pg"
    by blast
  from capture_in_call [OF init pg g w t v] pg
  show "\<exists>pg. page (fst s1) = Some pg \<and>
          filter is_screenshot (trace (snd (snd (youtube_screenshot e a s0)))) =
            filter is_screenshot (trace (snd s1)) @
            [if v then Ext (ElementScreenshot pg (fullPath e a) ''png'') (elementScreenshot e)
             else Ext (PageScreenshot pg (fullPath e a) ''png'' False) (pageScreenshot e)]"
    by blast
qed

theorem capture_two_tier_witness:
  "initBrowser no_element_env
     (record_event (Notification Info ''Initializing browser...'') (getServer, empty_world)) =
     (Inr (), (\<lparr>browser = Some 0, page = Some 1\<rparr>,
        \<lparr>fresh = 2, browsers = [0], pages = [1],
         trace = [Notification Info ''Initializing browser...'', Ext Launch None,
           Ext (NewPage 0) None, Ext (SetViewportSize 1 1920 1080) None]\<rparr>))
   \<and> goto no_element_env (url sample_args) = None
   \<and> waitForSelector no_element_env = None
   \<and> waitStabilize no_element_env = None
   \<and> queryVideo no_element_env = Inr False
   \<and> filter is_screenshot
        (trace (snd (snd (youtube_screenshot no_element_env sample_args (getServer, empty_world))))) =
       [Ext (PageScreenshot 1 ''/srv/app/shot.png'' ''png'' False) None]
   \<and> take_screenshot quiet_env 1 ''/srv/app/shot.png'' loaded_state =
       (Inr (), (\<lparr>browser = Some 0, page = Some 1\<rparr>,
          \<lparr>fresh = 2, browsers = [0], pages = [1],
           trace = [Ext (Query 1 ''video'') None,
             Ext (ElementScreenshot 1 ''/srv/app/shot.png'' ''png'') None]\<rparr>))"
proof -
  have h1: "initBrowser no_element_env
     (record_event (Notification Info ''Initializing browser...'') (getServer, empty_world)) =
     (Inr (), (\<lparr>browser = Some 0, page = Some 1\<rparr>,
        \<lparr>fresh = 2, browsers = [0], pages = [1],
         trace = [Notification Info ''Initializing browser...'', Ext Launch None,
           Ext (NewPage 0) None, Ext (SetViewportSize 1 1920 1080) None]\<rparr>))"
    by (rule fresh_start) (simp_all add: no_element_env_def quiet_env_def)
  have env: "goto no_element_env (url sample_args) = None"
    "waitForSelector no_element_env = None" "waitStabilize no_element_env = None"
    "queryVideo no_element_env = Inr False" "pageScreenshot no_element_env = None"
    by (simp_all add: no_element_env_def quiet_env_def)
  have pth: "fullPath no_element_env sample_args = ''/srv/app/shot.png''"
    by (rule sample_path) (simp add: no_element_env_def quiet_env_def)
  have q: "queryVideo quiet_env = Inr True" "elementScreenshot quiet_env = None"
    by (simp_all add: quiet_env_def)
  from capture_two_tier [where e = no_element_env and a = sample_args
      and ?s0.0 = "(getServer, empty_world)" and v = False
      and ?s1.0 = "(\<lparr>browser = Some 0, page = Some 1\<rparr>,
        \<lparr>fresh = 2, browsers = [0], pages = [1],
         trace = [Notification Info ''Initializing browser...'', Ext Launch None,
           Ext (NewPage 0) None, Ext (SetViewportSize 1 1920 1080) None]\<rparr>)"]
    capture_two_tier [where e = quiet_env and p = 1 and path = "''/srv/app/shot.png''"
      and s = loaded_state]
    h1 env pth q
  show ?thesis
    by (simp add: loaded_state_def)
qed


subsection \<open>get-video-info and its guard\<close>

lemma get_video_info_cases:
  "get_video_info e s =
     (case page (fst s) of
        None \<Rightarrow> (no_page_result, s)
      | Some p \<Rightarrow>
          (case evaluate e of
             Inl err \<Rightarrow>
               (\<lparr>content = [''Failed to get video info: '' @ error_message err], isError = True\<rparr>,
                (fst s, (snd s)\<lparr>trace := trace (snd s) @
                   [Notification Info ''Extracting video information...'',
                    Ext (Evaluate p) (Some err)]\<rparr>))
           | Inr d \<Rightarrow>
               (\<lparr>content = [info_text (extract_info d)], isError = False\<rparr>,
                (fst s, (snd s)\<lparr>trace := trace (snd s) @
                   [Notification Info ''Extracting video information...'',
                    Ext (Evaluate p) None]\<rparr>))))"
  by (cases "page (fst s)"; cases "evaluate e")
    (simp_all add: get_video_info_def get_video_info_try_def then_do_def return_def
      error_result_def new_Error_def no_page_result_def record_event_def sendNotification_def
      ext_value_def)

text \<open>
  C3, as stated, fails: the guard looks at the page handle, not at what the page has
  loaded. After a screenshot call whose navigation failed the page exists, no navigation
  has gone through, and get-video-info succeeds on the blank page.
\<close>

theorem get_video_info_before_navigation_counterexample:
  "filter is_navigation
     (trace (snd (snd (youtube_screenshot bad_url_env sample_args (getServer, empty_world))))) = []
   \<and> fst (get_video_info quiet_env
        (snd (youtube_screenshot bad_url_env sample_args (getServer, empty_world)))) =
      \<lparr>content = [''Video Information:'' @
         [CHR ''\<newline>''] @ ''Title: Unknown'' @
         [CHR ''\<newline>''] @ ''Channel: Unknown'' @
         [CHR ''\<newline>''] @ ''Duration: 0s'' @
         [CHR ''\<newline>''] @ ''Current Time: 0s'' @
         [CHR ''\<newline>''] @ ''Resolution: 0x0'' @
         [CHR ''\<newline>''] @ ''Status: Paused'' @
         [CHR ''\<newline>''] @ ''URL: about:blank''],
       isError = False\<rparr>
   \<and> fst (get_video_info quiet_env
        (snd (youtube_screenshot bad_url_env sample_args (getServer, empty_world)))) \<noteq> no_page_result"
proof -
  have h1: "initBrowser bad_url_env
     (record_event (Notification Info ''Initializing browser...'') (getServer, empty_world)) =
     (Inr (), (\<lparr>browser = Some 0, page = Some 1\<rparr>,
        \<lparr>fresh = 2, browsers = [0], pages = [1],
         trace = [Notification Info ''Initializing browser...'', Ext Launch None,
           Ext (NewPage 0) None, Ext (SetViewportSize 1 1920 1080) None]\<rparr>))"
    by (rule fresh_start) (simp_all add: bad_url_env_def quiet_env_def)
  have g: "goto bad_url_env (url sample_args) = Some (Error ''Error'' ''net::ERR_NAME_NOT_RESOLVED'')"
    by (simp add: bad_url_env_def quiet_env_def)
  have run: "snd (youtube_screenshot bad_url_env sample_args (getServer, empty_world)) =
     (\<lparr>browser = Some 0, page = Some 1\<rparr>,
        \<lparr>fresh = 2, browsers = [0], pages = [1],
         trace = [Notification Info ''Initializing browser...'', Ext Launch None,
           Ext (NewPage 0) None, Ext (SetViewportSize 1 1920 1080) None,
           Notification Info ''Loading YouTube video: https://youtu.be/nM_6OzE6OJY?t=83'',
           Ext (Goto 1 ''https://youtu.be/nM_6OzE6OJY?t=83'' ''networkidle'')
             (Some (Error ''Error'' ''net::ERR_NAME_NOT_RESOLVED'')),
           Notification Err ''Error: Error: net::ERR_NAME_NOT_RESOLVED'']\<rparr>)"
    using h1 g
    by (simp add: youtube_screenshot_def youtube_screenshot_try_def then_do_initBrowser
        record_event_def sample_args_def)
  show ?thesis
    unfolding run
    by (simp add: get_video_info_cases quiet_env_def info_text_def extract_info_def
        or_unknown_def show_int_def digit_char_def no_page_result_def)
qed

text \<open>
  C3, amended. On a server without a page handle (a new server in particular)
  get-video-info returns the error result asking to load a video first, and leaves the
  closure and the world as they are: no browser is launched, no page opened, nothing is
  traced. On a server with a page handle the guard passes: the page is evaluated and
  the result is the extracted information, or an error result with the message of what
  the evaluation threw.
\<close>

theorem get_video_info_requires_page:
  "(page (fst s) = None \<longrightarrow> get_video_info e s = (no_page_result, s))
   \<and> get_video_info e (getServer, w) = (no_page_result, (getServer, w))
   \<and> no_page_result =
       \<lparr>content = [''Failed to get video info: No browser page available. Please load a video first.''],
        isError = True\<rparr>
   \<and> (page (fst s) = Some p \<longrightarrow>
        get_video_info e s =
          (case evaluate e of
             Inl err \<Rightarrow>
               (\<lparr>content = [''Failed to get video info: '' @ error_message err], isError = True\<rparr>,
                (fst s, (snd s)\<lparr>trace := trace (snd s) @
                   [Notification Info ''Extracting video information...'',
                    Ext (Evaluate p) (Some err)]\<rparr>))
           | Inr d \<Rightarrow>
               (\<lparr>content = [info_text (extract_info d)], isError = False\<rparr>,
                (fst s, (snd s)\<lparr>trace := trace (snd s) @
                   [Notification Info ''Extracting video information...'',
                    Ext (Evaluate p) None]\<rparr>))))"
  by (simp add: get_video_info_cases getServer_def no_page_result_def)

theorem get_video_info_requires_page_witness:
  "page (fst (getServer, empty_world)) = None
   \<and> get_video_info quiet_env (getServer, empty_world) =
       (\<lparr>content = [''Failed to get video info: No browser page available. Please load a video first.''],
         isError = True\<rparr>,
        (\<lparr>browser = None, page = None\<rparr>, \<lparr>fresh = 0, browsers = [], pages = [], trace = []\<rparr>))
   \<and> page (fst loaded_state) = Some 1
   \<and> isError (fst (get_video_info (quiet_env\<lparr>evaluate := Inl timeout_error\<rparr>) loaded_state))
   \<and> content (fst (get_video_info (quiet_env\<lparr>evaluate := Inl timeout_error\<rparr>) loaded_state)) =
       [''Failed to get video info: Timeout exceeded.'']"
  using get_video_info_requires_page [of "(getServer, empty_world)" quiet_env empty_world]
    get_video_info_requires_page [of loaded_state "quiet_env\<lparr>evaluate := Inl timeout_error\<rparr>" _ 1]
  by (simp add: getServer_def empty_world_def loaded_state_def quiet_env_def timeout_error_def)


subsection \<open>The default output path\<close>

lemma digit_char_in: "digit_char n \<in> set ''0123456789''"
  unfolding digit_char_def by (rule nth_mem) simp

lemma digit_char_plain [simp]:
  "digit_char n \<noteq> CHR ''/''" "digit_char n \<noteq> CHR '':''" "digit_char n \<noteq> CHR ''.''"
  using digit_char_in [of n] by auto

lemma pad_plain [simp]:
  "CHR ''/'' \<notin> set (pad2 n)" "CHR ''/'' \<notin> set (pad3 n)"
  "CHR ''/'' \<notin> set (pad4 n)" "CHR ''/'' \<notin> set (pad6 n)"
  by (simp_all add: pad2_def pad3_def pad4_def pad6_def eq_commute [of "CHR ''/''"])

lemma year_string_plain [simp]: "CHR ''/'' \<notin> set (year_string y)"
  by (simp add: year_string_def)

lemma date_time_string_plain [simp]: "CHR ''/'' \<notin> set (date_time_string t)"
  by (simp add: date_time_string_def Let_def split_beta)

lemma replace_colon_dot_pad3 [simp]: "replace_colon_dot (pad3 n) = pad3 n"
  by (simp add: replace_colon_dot_def pad3_def)

lemma replace_colon_dot_append [simp]:
  "replace_colon_dot (xs @ ys) = replace_colon_dot xs @ replace_colon_dot ys"
  by (simp add: replace_colon_dot_def)

lemma replace_colon_dot_clean [simp]:
  "CHR '':'' \<notin> set (replace_colon_dot s)" "CHR ''.'' \<notin> set (replace_colon_dot s)"
  by (auto simp add: replace_colon_dot_def)

lemma replace_colon_dot_slash [simp]:
  "CHR ''/'' \<in> set (replace_colon_dot s) \<longleftrightarrow> CHR ''/'' \<in> set s"
  by (auto simp add: replace_colon_dot_def)

lemma replace_colon_dot_simps [simp]:
  "replace_colon_dot [] = []"
  "replace_colon_dot (c # s) =
     (if c = CHR '':'' \<or> c = CHR ''.'' then CHR ''-'' else c) # replace_colon_dot s"
  by (simp_all add: replace_colon_dot_def)

lemma default_filename_shape:
  "default_filename t =
     (''youtube-screenshot-'' @ replace_colon_dot (date_time_string t) @ ''-'') @
     pad3 (nat (t mod 1000)) @ ''Z.png''"
  by (simp add: default_filename_def toISOString_def)

lemma default_filename_plain: "CHR ''/'' \<notin> set (default_filename t)"
  by (simp add: default_filename_shape)

lemma digit_char_inj: "digit_char a = digit_char b \<Longrightarrow> a mod 10 = b mod 10"
proof -
  assume eq: "digit_char a = digit_char b"
  have d: "distinct ''0123456789''" by simp
  have la: "a mod 10 < length ''0123456789''" and lb: "b mod 10 < length ''0123456789''"
    by simp_all
  from eq show ?thesis
    unfolding digit_char_def nth_eq_iff_index_eq [OF d la lb] .
qed

lemma length_pad3 [simp]: "length (pad3 n) = 3"
  by (simp add: pad3_def)

lemma nat_ms_mod10: "nat (t mod 1000) mod 10 = nat (t mod 10)"
proof -
  have "nat ((t mod 1000) mod 10) = nat (t mod 1000) mod nat 10"
    by (rule nat_mod_distrib) simp_all
  moreover have "(t mod 1000) mod 10 = t mod 10"
    by (rule mod_mod_cancel) simp
  ultimately show ?thesis by simp
qed

lemma ms_last_digit: "nat (t mod 1000) mod 10 \<noteq> nat ((t + 1) mod 1000) mod 10"
proof -
  have "t mod 10 \<noteq> (t + 1) mod 10"
    by presburger
  moreover have "0 \<le> t mod 10" "0 \<le> (t + 1) mod 10"
    by simp_all
  ultimately show ?thesis
    unfolding nat_ms_mod10 by simp
qed

lemma pad3_ms_distinct: "pad3 (nat (t mod 1000)) \<noteq> pad3 (nat ((t + 1) mod 1000))"
proof
  assume "pad3 (nat (t mod 1000)) = pad3 (nat ((t + 1) mod 1000))"
  then have "digit_char (nat (t mod 1000)) = digit_char (nat ((t + 1) mod 1000))"
    by (simp add: pad3_def)
  from digit_char_inj [OF this] ms_last_digit [of t] show False
    by contradiction
qed



lemma default_filename_distinct: "default_filename t \<noteq> default_filename (t + 1)"
proof
  assume "default_filename t = default_filename (t + 1)"
  then have "(''youtube-screenshot-'' @ replace_colon_dot (date_time_string t) @ ''-'') @
        pad3 (nat (t mod 1000)) =
      (''youtube-screenshot-'' @ replace_colon_dot (date_time_string (t + 1)) @ ''-'') @
        pad3 (nat ((t + 1) mod 1000))"
    unfolding default_filename_shape append_assoc [symmetric] append_same_eq .
  then have "pad3 (nat (t mod 1000)) = pad3 (nat ((t + 1) mod 1000))"
    by (subst (asm) append_eq_append_conv) simp_all
  with pad3_ms_distinct [of t] show False
    by contradiction
qed

lemma default_filename_stem:
  "default_filename t = (''youtube-screenshot-'' @ replace_colon_dot (toISOString t)) @ ''.png''"
  "CHR ''.'' \<notin> set (''youtube-screenshot-'' @ replace_colon_dot (toISOString t))"
  "CHR '':'' \<notin> set (default_filename t)"
  by (simp_all add: default_filename_def)

lemma split_slash_nonempty: "split_slash s \<noteq> []"
  by (cases s) (simp_all split: list.splits)

lemma split_slash_plain: "CHR ''/'' \<notin> set n \<Longrightarrow> split_slash n = [n]"
  by (induction n) auto

lemma split_slash_append:
  "CHR ''/'' \<notin> set n \<Longrightarrow> split_slash (d @ CHR ''/'' # n) = split_slash d @ [n]"
proof (induction d)
  case Nil
  then show ?case by (simp add: split_slash_plain)
next
  case (Cons c d)
  then show ?case
    using split_slash_nonempty [of d] by (cases "split_slash d") simp_all
qed

lemma normalize_segments_last:
  "n \<noteq> [] \<Longrightarrow> n \<noteq> ''.'' \<Longrightarrow> n \<noteq> ''..'' \<Longrightarrow>
   normalize_segments acc (xs @ [n]) = normalize_segments acc xs @ [n]"
  by (induction xs arbitrary: acc) simp_all

lemma join_slash_last: "\<exists>pre. ''/'' @ join_slash (xs @ [n]) = pre @ ''/'' @ n"
proof (induction xs)
  case Nil
  show ?case by simp
next
  case (Cons x xs)
  then obtain pre where pre: "''/'' @ join_slash (xs @ [n]) = pre @ ''/'' @ n"
    by blast
  have "join_slash ((x # xs) @ [n]) = x @ ''/'' @ join_slash (xs @ [n])"
    by (cases xs) simp_all
  with pre have "''/'' @ join_slash ((x # xs) @ [n]) = (''/'' @ x @ pre) @ ''/'' @ n"
    by simp
  then show ?case by blast
qed

lemma path_resolve_name:
  assumes "CHR ''/'' \<notin> set n" and "n \<noteq> []" and "n \<noteq> ''.''" and "n \<noteq> ''..''"
  shows "\<exists>dir. path_resolve d n = dir @ ''/'' @ n"
proof -
  from assms(1,2) have "\<not> is_absolute n"
    by (cases n) (auto simp add: is_absolute_def)
  then have "path_resolve d n =
      ''/'' @ join_slash (normalize_segments [] (split_slash d) @ [n])"
    using assms by (simp add: path_resolve_def split_slash_append normalize_segments_last)
  with join_slash_last show ?thesis by simp
qed

lemma last_segment_eq:
  assumes "a @ ''/'' @ m = b @ ''/'' @ n" and "CHR ''/'' \<notin> set m" and "CHR ''/'' \<notin> set n"
  shows "m = n"
proof -
  have tw: "\<And>x k. CHR ''/'' \<notin> set k \<Longrightarrow>
      takeWhile (\<lambda>c. c \<noteq> CHR ''/'') (rev (x @ ''/'' @ k)) = rev k"
    by simp (subst takeWhile_append2; auto)
  from assms(1)
  have "takeWhile (\<lambda>c. c \<noteq> CHR ''/'') (rev (a @ ''/'' @ m)) =
      takeWhile (\<lambda>c. c \<noteq> CHR ''/'') (rev (b @ ''/'' @ n))"
    by (rule arg_cong)
  then have "rev m = rev n"
    unfolding tw [OF assms(2)] tw [OF assms(3)] .
  then show ?thesis by simp
qed

lemma default_filename_ordinary:
  "default_filename t \<noteq> []" "default_filename t \<noteq> ''.''" "default_filename t \<noteq> ''..''"
  by (simp_all add: default_filename_def)

lemma default_path_distinct:
  "path_resolve d (default_filename t) \<noteq> path_resolve d (default_filename (t + 1))"
proof
  assume eq: "path_resolve d (default_filename t) = path_resolve d (default_filename (t + 1))"
  from path_resolve_name [OF default_filename_plain [of t] default_filename_ordinary [of t], of d]
  obtain x where x: "path_resolve d (default_filename t) = x @ ''/'' @ default_filename t"
    by blast
  from path_resolve_name [OF default_filename_plain [of "t + 1"]
      default_filename_ordinary [of "t + 1"], of d]
  obtain y where y: "path_resolve d (default_filename (t + 1)) = y @ ''/'' @ default_filename (t + 1)"
    by blast
  from last_segment_eq [OF eq [unfolded x y] default_filename_plain default_filename_plain]
    default_filename_distinct [of t]
  show False by contradiction
qed


text \<open>
  C5. Without an \<open>outputPath\<close> the path of the screenshot is the resolution, against
  the working directory, of \<open>youtube-screenshot-\<close> followed by the ISO timestamp of the
  capture with every colon and dot replaced by a hyphen, followed by \<open>.png\<close>. The path
  is absolute and ends in that name. The name contains no colon, and no dot before the
  one of the extension. Two captures one millisecond apart get different names and
  different paths.
\<close>

theorem default_output_path:
  "(outputPath a = None \<longrightarrow>
      fullPath e a =
        path_resolve (cwd e)
          (''youtube-screenshot-'' @
           map (\<lambda>c. if c = CHR '':'' \<or> c = CHR ''.'' then CHR ''-'' else c) (toISOString (now e)) @
           ''.png''))
   \<and> is_absolute (fullPath e a)
   \<and> (\<exists>dir. path_resolve d (default_filename t) = dir @ ''/'' @ default_filename t)
   \<and> default_filename t = (''youtube-screenshot-'' @ replace_colon_dot (toISOString t)) @ ''.png''
   \<and> CHR '':'' \<notin> set (default_filename t)
   \<and> CHR ''.'' \<notin> set (''youtube-screenshot-'' @ replace_colon_dot (toISOString t))
   \<and> default_filename t \<noteq> default_filename (t + 1)
   \<and> path_resolve d (default_filename t) \<noteq> path_resolve d (default_filename (t + 1))
   \<and> (outputPath a = None \<longrightarrow> fullPath (e\<lparr>now := t\<rparr>) a \<noteq> fullPath (e\<lparr>now := t + 1\<rparr>) a)"
proof (intro conjI impI)
  assume "outputPath a = None"
  then show "fullPath e a =
        path_resolve (cwd e)
          (''youtube-screenshot-'' @
           map (\<lambda>c. if c = CHR '':'' \<or> c = CHR ''.'' then CHR ''-'' else c) (toISOString (now e)) @
           ''.png'')"
    by (simp add: fullPath_def output_filename_def default_filename_def replace_colon_dot_def)
next
  show "is_absolute (fullPath e a)"
    by (simp add: fullPath_def path_resolve_def is_absolute_def Let_def)
next
  show "\<exists>dir. path_resolve d (default_filename t) = dir @ ''/'' @ default_filename t"
    by (rule path_resolve_name [OF default_filename_plain default_filename_ordinary])
next
  show "default_filename t = (''youtube-screenshot-'' @ replace_colon_dot (toISOString t)) @ ''.png''"
    by (rule default_filename_stem)
next
  show "CHR '':'' \<notin> set (default_filename t)"
    by (rule default_filename_stem)
next
  show "CHR ''.'' \<notin> set (''youtube-screenshot-'' @ replace_colon_dot (toISOString t))"
    by (rule default_filename_stem)
next
  show "default_filename t \<noteq> default_filename (t + 1)"
    by (rule default_filename_distinct)
next
  show "path_resolve d (default_filename t) \<noteq> path_resolve d (default_filename (t + 1))"
    by (rule default_path_distinct)
next
  assume "outputPath a = None"
  then show "fullPath (e\<lparr>now := t\<rparr>) a \<noteq> fullPath (e\<lparr>now := t + 1\<rparr>) a"
    using default_path_distinct [of "cwd e" t]
    by (simp add: fullPath_def output_filename_def)
qed

theorem default_output_path_witness:
  "outputPath (sample_args\<lparr>outputPath := None\<rparr>) = None
   \<and> fullPath (quiet_env\<lparr>now := 1700000000999\<rparr>) (sample_args\<lparr>outputPath := None\<rparr>) =
       ''/srv/app/youtube-screenshot-2023-11-14T22-13-20-999Z.png''
   \<and> fullPath (quiet_env\<lparr>now := 1700000000999 + 1\<rparr>) (sample_args\<lparr>outputPath := None\<rparr>) =
       ''/srv/app/youtube-screenshot-2023-11-14T22-13-21-000Z.png''
   \<and> fullPath (quiet_env\<lparr>now := 1700000000999\<rparr>) (sample_args\<lparr>outputPath := None\<rparr>) \<noteq>
       fullPath (quiet_env\<lparr>now := 1700000000999 + 1\<rparr>) (sample_args\<lparr>outputPath := None\<rparr>)"
proof -
  have o: "outputPath (sample_args\<lparr>outputPath := None\<rparr>) = None"
    by simp
  have a: "toISOString 1700000000999 = ''2023-11-14T22:13:20.999Z''"
    by code_simp
  have b: "toISOString 1700000001000 = ''2023-11-14T22:13:21.000Z''"
    by code_simp
  have pa: "path_resolve ''/srv/app'' ''youtube-screenshot-2023-11-14T22-13-20-999Z.png'' =
      ''/srv/app/youtube-screenshot-2023-11-14T22-13-20-999Z.png''"
    by code_simp
  have pb: "path_resolve ''/srv/app'' ''youtube-screenshot-2023-11-14T22-13-21-000Z.png'' =
      ''/srv/app/youtube-screenshot-2023-11-14T22-13-21-000Z.png''"
    by code_simp
  have c: "cwd quiet_env = ''/srv/app''"
    by (simp add: quiet_env_def)
  from default_output_path [where a = "sample_args\<lparr>outputPath := None\<rparr>" and e = quiet_env
      and t = 1700000000999] o
  have "fullPath (quiet_env\<lparr>now := 1700000000999\<rparr>) (sample_args\<lparr>outputPath := None\<rparr>) \<noteq>
       fullPath (quiet_env\<lparr>now := 1700000000999 + 1\<rparr>) (sample_args\<lparr>outputPath := None\<rparr>)"
    by blast
  moreover
  have "fullPath (quiet_env\<lparr>now := 1700000000999\<rparr>) (sample_args\<lparr>outputPath := None\<rparr>) =
       ''/srv/app/youtube-screenshot-2023-11-14T22-13-20-999Z.png''"
    by (simp add: fullPath_def output_filename_def default_filename_def a c pa)
  moreover
  have "fullPath (quiet_env\<lparr>now := 1700000000999 + 1\<rparr>) (sample_args\<lparr>outputPath := None\<rparr>) =
       ''/srv/app/youtube-screenshot-2023-11-14T22-13-21-000Z.png''"
    by (simp add: fullPath_def output_filename_def default_filename_def b c pb)
  ultimately show ?thesis using o by blast
qed


subsection \<open>The POST handler\<close>

lemma post_known:
  "sid \<noteq> [] \<Longrightarrow> transports P sid = Some t \<Longrightarrow>
   mcpPostHandler e \<lparr>mcp_session_id = Some sid, body = b\<rparr> P =
     (Handled (fst (handleRequest e b (t, outside P))),
      P\<lparr>transports := (transports P)(sid \<mapsto> fst (snd (handleRequest e b (t, outside P)))),
        outside := snd (snd (handleRequest e b (t, outside P)))\<rparr>)"
  by (simp add: mcpPostHandler_def truthy_def get_property_def Let_def case_prod_beta)

lemma post_initialize:
  "\<not> truthy h \<Longrightarrow> isInitializeRequest b \<Longrightarrow>
   mcpPostHandler e \<lparr>mcp_session_id = h, body = b\<rparr> P =
     (Initialized (randomUUID e), P\<lparr>transports := (transports P)(randomUUID e \<mapsto> getServer)\<rparr>)"
  by (simp add: mcpPostHandler_def Let_def)

lemma post_missing:
  "\<not> truthy h \<Longrightarrow> \<not> isInitializeRequest b \<Longrightarrow>
   mcpPostHandler e \<lparr>mcp_session_id = h, body = b\<rparr> P = (bad_request, P)"
  by (simp add: mcpPostHandler_def Let_def)

lemma post_unknown:
  "sid \<noteq> [] \<Longrightarrow> transports P sid = None \<Longrightarrow> sid \<notin> set Object_prototype \<Longrightarrow>
   mcpPostHandler e \<lparr>mcp_session_id = Some sid, body = b\<rparr> P = (bad_request, P)"
  by (simp add: mcpPostHandler_def truthy_def get_property_def Let_def)

text \<open>
  A header naming a property that plain objects inherit is taken for a session: the
  request ends in the \<open>catch\<close> and is answered with 500.
\<close>

lemma post_inherited:
  "transports P sid = None \<Longrightarrow> sid \<in> set Object_prototype \<Longrightarrow>
   mcpPostHandler e \<lparr>mcp_session_id = Some sid, body = b\<rparr> P = (internal_error, P)"
  by (auto simp add: mcpPostHandler_def truthy_def get_property_def Let_def Object_prototype_def)

text \<open>
  C6, as stated, fails: a header that is present but empty is falsy, so with an
  initialize body the request is not answered with 400 but creates a session.
\<close>

theorem post_empty_header_counterexample:
  "mcp_session_id empty_header_request \<noteq> None
   \<and> transports empty_process [] = None
   \<and> isInitializeRequest (body empty_header_request)
   \<and> fst (mcpPostHandler quiet_env empty_header_request empty_process) = Initialized ''session-1''
   \<and> fst (mcpPostHandler quiet_env empty_header_request empty_process) \<noteq> bad_request
   \<and> transports (snd (mcpPostHandler quiet_env empty_header_request empty_process)) ''session-1'' =
       Some getServer
   \<and> snd (mcpPostHandler quiet_env empty_header_request empty_process) \<noteq> empty_process"
proof -
  have t: "\<not> truthy (Some [])"
    by (simp add: truthy_def)
  have r: "mcpPostHandler quiet_env empty_header_request empty_process =
      (Initialized ''session-1'',
       empty_process\<lparr>transports := (transports empty_process)(''session-1'' \<mapsto> getServer)\<rparr>)"
    unfolding empty_header_request_def
    using post_initialize [OF t, of Initialize quiet_env empty_process]
    by (simp add: isInitializeRequest_def quiet_env_def)
  have n: "empty_process\<lparr>transports := (transports empty_process)(''session-1'' \<mapsto> getServer)\<rparr>
      \<noteq> empty_process"
  proof
    assume "empty_process\<lparr>transports := (transports empty_process)(''session-1'' \<mapsto> getServer)\<rparr>
      = empty_process"
    then have "transports (empty_process\<lparr>transports :=
        (transports empty_process)(''session-1'' \<mapsto> getServer)\<rparr>) ''session-1'' =
        transports empty_process ''session-1''"
      by simp
    then show False
      by (simp add: empty_process_def)
  qed
  show ?thesis
    unfolding r using n
    by (simp add: empty_header_request_def empty_process_def isInitializeRequest_def
        bad_request_def)
qed


text \<open>
  C6, amended. A request whose session header is non-empty and names a transport of the
  map is handled by that transport. A request whose header is absent or empty and whose
  body is a valid initialize request creates a session, registered under the identifier
  minted for it. A request whose header is absent or empty with any other body, and a
  request whose non-empty header is neither a key of the map nor a property name that
  plain objects inherit, is answered with status 400 and the fixed JSON-RPC error body;
  the process is left as it was, so no tool has run.
\<close>

theorem post_classification:
  "(sid \<noteq> [] \<and> transports P sid = Some t \<longrightarrow>
      mcpPostHandler e \<lparr>mcp_session_id = Some sid, body = b\<rparr> P =
        (Handled (fst (handleRequest e b (t, outside P))),
         P\<lparr>transports := (transports P)(sid \<mapsto> fst (snd (handleRequest e b (t, outside P)))),
           outside := snd (snd (handleRequest e b (t, outside P)))\<rparr>))
   \<and> ((h = None \<or> h = Some []) \<and> isInitializeRequest b \<longrightarrow>
      mcpPostHandler e \<lparr>mcp_session_id = h, body = b\<rparr> P =
        (Initialized (randomUUID e),
         P\<lparr>transports := (transports P)(randomUUID e \<mapsto> getServer)\<rparr>))
   \<and> ((h = None \<or> h = Some []) \<and> \<not> isInitializeRequest b \<longrightarrow>
      mcpPostHandler e \<lparr>mcp_session_id = h, body = b\<rparr> P = (bad_request, P))
   \<and> (sid \<noteq> [] \<and> transports P sid = None \<and> sid \<notin> set Object_prototype \<longrightarrow>
      mcpPostHandler e \<lparr>mcp_session_id = Some sid, body = b\<rparr> P = (bad_request, P))
   \<and> bad_request =
       Status 400 \<lparr>jsonrpc = ''2.0'', code = - 32000,
         message = ''Bad Request: No valid session ID provided'', id = None\<rparr>"
proof -
  have f: "h = None \<or> h = Some [] \<Longrightarrow> \<not> truthy h"
    by (auto simp add: truthy_def)
  show ?thesis
    using post_known [of sid P t e b] post_initialize [of h b e P] post_missing [of h b e P]
      post_unknown [of sid P e b] f
    by (simp add: bad_request_def)
qed

theorem post_classification_witness:
  "''session-1'' \<noteq> [] \<and> transports one_session ''session-1'' = Some getServer
   \<and> fst (mcpPostHandler quiet_env \<lparr>mcp_session_id = Some ''session-1'', body = CallTool GetVideoInfo\<rparr>
        one_session) = Handled (Some no_page_result)
   \<and> isInitializeRequest Initialize
   \<and> fst (mcpPostHandler quiet_env \<lparr>mcp_session_id = None, body = Initialize\<rparr> empty_process) =
       Initialized ''session-1''
   \<and> transports (snd (mcpPostHandler quiet_env \<lparr>mcp_session_id = None, body = Initialize\<rparr>
        empty_process)) ''session-1'' = Some getServer
   \<and> transports (snd (mcpPostHandler quiet_env \<lparr>mcp_session_id = Some [], body = Initialize\<rparr>
        empty_process)) ''session-1'' = Some getServer
   \<and> \<not> isInitializeRequest (CallTool GetVideoInfo)
   \<and> mcpPostHandler quiet_env \<lparr>mcp_session_id = None, body = CallTool GetVideoInfo\<rparr> one_session =
       (bad_request, one_session)
   \<and> ''session-9'' \<noteq> [] \<and> transports one_session ''session-9'' = None
   \<and> ''session-9'' \<notin> set Object_prototype
   \<and> mcpPostHandler quiet_env \<lparr>mcp_session_id = Some ''session-9'', body = CallTool GetVideoInfo\<rparr>
        one_session = (bad_request, one_session)"
proof -
  have k: "transports one_session ''session-1'' = Some getServer"
    "transports one_session ''session-9'' = None"
    by (simp_all add: one_session_def)
  have o: "''session-9'' \<notin> set Object_prototype"
    by (simp add: Object_prototype_def)
  have g: "fst (handleRequest quiet_env (CallTool GetVideoInfo) (getServer, outside one_session)) =
      Some no_page_result"
    by (simp add: handleRequest_def get_video_info_cases getServer_def)
  have u: "randomUUID quiet_env = ''session-1''"
    by (simp add: quiet_env_def)
  from post_classification [where sid = "''session-1''" and P = one_session and t = getServer
      and e = quiet_env and b = "CallTool GetVideoInfo" and h = None]
    post_classification [where P = empty_process and e = quiet_env and b = Initialize and h = None]
    post_classification [where P = empty_process and e = quiet_env and b = Initialize
      and h = "Some []"]
    post_classification [where sid = "''session-9''" and P = one_session
      and e = quiet_env and b = "CallTool GetVideoInfo"]
    k o g u
  show ?thesis
    by (simp add: isInitializeRequest_def)
qed

subsection \<open>Sessions and their browsers\<close>

lemma handleRequest_screenshot_state:
  "snd (handleRequest e (CallTool (YoutubeScreenshot u out wt q)) s) =
     snd (youtube_screenshot e
       \<lparr>url = u, outputPath = out,
        waitTime = (case wt of None \<Rightarrow> 3000 | Some t \<Rightarrow> t),
        quality = (case q of None \<Rightarrow> Highest | Some x \<Rightarrow> x)\<rparr> s)"
  by (simp add: handleRequest_def case_prod_beta)

lemma new_session_start:
  assumes "launch e = None" and "newPage e = None" and "setViewportSize e = None"
  shows "snd (initBrowser e (record_event ev (getServer, w))) =
     (\<lparr>browser = Some (fresh w), page = Some (Suc (fresh w))\<rparr>,
      w\<lparr>fresh := Suc (Suc (fresh w)), browsers := browsers w @ [fresh w],
        pages := pages w @ [Suc (fresh w)],
        trace := trace w @ [ev, Ext Launch None, Ext (NewPage (fresh w)) None,
          Ext (SetViewportSize (Suc (fresh w)) 1920 1080) None]\<rparr>)"
  using assms by (simp add: initBrowser_cases record_event_def getServer_def)

lemma screenshot_in_new_session:
  assumes "launch e = None" and "newPage e = None" and "setViewportSize e = None"
  shows "fst (snd (youtube_screenshot e a (getServer, w))) =
      \<lparr>browser = Some (fresh w), page = Some (Suc (fresh w))\<rparr>"
    and "fresh (snd (snd (youtube_screenshot e a (getServer, w)))) = Suc (Suc (fresh w))"
    and "browsers (snd (snd (youtube_screenshot e a (getServer, w)))) = browsers w @ [fresh w]"
    and "pages (snd (snd (youtube_screenshot e a (getServer, w)))) = pages w @ [Suc (fresh w)]"
  using youtube_screenshot_frame [of e a "(getServer, w)"]
  by (simp_all add: new_session_start [OF assms])

lemma other_sessions_untouched:
  assumes "other \<noteq> randomUUID e" and "mcp_session_id req \<noteq> Some other"
  shows "transports (snd (mcpPostHandler e req P)) other = transports P other"
proof (cases "mcp_session_id req")
  case None
  with assms show ?thesis
    by (simp add: mcpPostHandler_def Let_def truthy_def)
next
  case (Some sid)
  with assms have "sid \<noteq> other" by simp
  with Some assms show ?thesis
    by (cases "get_property (transports P) sid")
      (simp_all add: mcpPostHandler_def Let_def truthy_def case_prod_beta)
qed

text \<open>
  C1, as stated, fails: the browser and page variables belong to the server instance
  that \<open>getServer\<close> creates for each new session. After two sessions have each taken a
  screenshot, two browsers and two pages are open in the process, one pair per session.
\<close>

theorem shared_browser_counterexample:
  "transports two_sessions ''session-1'' = Some \<lparr>browser = Some 0, page = Some 1\<rparr>
   \<and> transports two_sessions ''session-2'' = Some \<lparr>browser = Some 2, page = Some 3\<rparr>
   \<and> browsers (outside two_sessions) = [0, 2]
   \<and> pages (outside two_sessions) = [1, 3]
   \<and> \<not> (length (browsers (outside two_sessions)) \<le> 1)
   \<and> \<not> (length (pages (outside two_sessions)) \<le> 1)"
proof -
  define P1 where "P1 = snd (mcpPostHandler quiet_env initialize_request empty_process)"
  define P2 where "P2 = snd (mcpPostHandler second_env initialize_request P1)"
  define P3 where "P3 = snd (mcpPostHandler quiet_env (screenshot_request ''session-1'') P2)"
  define P4 where "P4 = snd (mcpPostHandler quiet_env (screenshot_request ''session-2'') P3)"
  have two: "two_sessions = P4"
    by (simp add: two_sessions_def Let_def P1_def P2_def P3_def P4_def)
  have q: "launch quiet_env = None" "newPage quiet_env = None" "setViewportSize quiet_env = None"
    "randomUUID quiet_env = ''session-1''" "randomUUID second_env = ''session-2''"
    by (simp_all add: quiet_env_def second_env_def)
  have t: "\<not> truthy None"
    by (simp add: truthy_def)
  have i: "isInitializeRequest Initialize"
    by (simp add: isInitializeRequest_def)
  have p1: "transports P1 ''session-1'' = Some getServer" "outside P1 = empty_world"
    unfolding P1_def initialize_request_def post_initialize [OF t i]
    by (simp_all add: q empty_process_def)
  have p2: "transports P2 ''session-1'' = Some getServer"
    "transports P2 ''session-2'' = Some getServer" "outside P2 = empty_world"
    unfolding P2_def initialize_request_def post_initialize [OF t i]
    by (simp_all add: q p1)
  have p3: "transports P3 ''session-1'' = Some \<lparr>browser = Some 0, page = Some 1\<rparr>"
    "transports P3 ''session-2'' = Some getServer"
    "fresh (outside P3) = 2" "browsers (outside P3) = [0]" "pages (outside P3) = [1]"
    unfolding P3_def screenshot_request_def
      post_known [of "''session-1''" P2 getServer, OF _ p2(1), simplified]
    by (simp_all add: handleRequest_screenshot_state screenshot_in_new_session [OF q(1,2,3)]
        p2 empty_world_def)
  have p4: "transports P4 ''session-1'' = Some \<lparr>browser = Some 0, page = Some 1\<rparr>"
    "transports P4 ''session-2'' = Some \<lparr>browser = Some 2, page = Some 3\<rparr>"
    "browsers (outside P4) = [0, 2]" "pages (outside P4) = [1, 3]"
    unfolding P4_def screenshot_request_def
      post_known [of "''session-2''" P3 getServer, OF _ p3(2), simplified]
    by (simp_all add: handleRequest_screenshot_state screenshot_in_new_session [OF q(1,2,3)] p3)
  show ?thesis
    unfolding two by (simp add: p4)
qed



text \<open>
  C1, amended. The browser state belongs to the server instance of a session. Every new
  session starts with a pair of its own in which browser and page are absent; a request
  handled in a session gives that session the pair its handler leaves; a request leaves
  the pair of every other session as it was. Within a session \<open>initBrowser\<close> keeps the
  handles that are present and creates only those that are absent, so that a session
  never holds more than one browser and one page, and it changes nothing when both are
  present.
\<close>

theorem browser_state_per_session:
  "getServer = \<lparr>browser = None, page = None\<rparr>
   \<and> (\<not> truthy h \<and> isInitializeRequest b \<longrightarrow>
        transports (snd (mcpPostHandler e \<lparr>mcp_session_id = h, body = b\<rparr> P)) (randomUUID e) =
          Some \<lparr>browser = None, page = None\<rparr>)
   \<and> (sid \<noteq> [] \<and> transports P sid = Some t \<longrightarrow>
        transports (snd (mcpPostHandler e \<lparr>mcp_session_id = Some sid, body = b\<rparr> P)) sid =
          Some (fst (snd (handleRequest e b (t, outside P)))))
   \<and> (other \<noteq> randomUUID e \<and> mcp_session_id req \<noteq> Some other \<longrightarrow>
        transports (snd (mcpPostHandler e req P)) other = transports P other)
   \<and> (initBrowser e s = (Inr (), s1) \<longrightarrow>
        browser (fst s1) = Some (case browser (fst s) of Some b \<Rightarrow> b | None \<Rightarrow> fresh (snd s)) \<and>
        page (fst s1) =
          Some (case page (fst s) of Some p \<Rightarrow> p
                | None \<Rightarrow> (case browser (fst s) of Some b \<Rightarrow> fresh (snd s)
                            | None \<Rightarrow> Suc (fresh (snd s)))) \<and>
        browsers (snd s1) =
          browsers (snd s) @ (case browser (fst s) of Some b \<Rightarrow> [] | None \<Rightarrow> [fresh (snd s)]) \<and>
        pages (snd s1) =
          pages (snd s) @
          (case page (fst s) of Some p \<Rightarrow> []
           | None \<Rightarrow> (case browser (fst s) of Some b \<Rightarrow> [fresh (snd s)]
                       | None \<Rightarrow> [Suc (fresh (snd s))])))
   \<and> (browser (fst s) \<noteq> None \<and> page (fst s) \<noteq> None \<longrightarrow> initBrowser e s = (Inr (), s))"
proof (intro conjI impI)
  show "getServer = \<lparr>browser = None, page = None\<rparr>"
    by (simp add: getServer_def)
next
  assume "\<not> truthy h \<and> isInitializeRequest b"
  then show "transports (snd (mcpPostHandler e \<lparr>mcp_session_id = h, body = b\<rparr> P)) (randomUUID e) =
          Some \<lparr>browser = None, page = None\<rparr>"
    by (simp add: post_initialize getServer_def)
next
  assume "sid \<noteq> [] \<and> transports P sid = Some t"
  then show "transports (snd (mcpPostHandler e \<lparr>mcp_session_id = Some sid, body = b\<rparr> P)) sid =
          Some (fst (snd (handleRequest e b (t, outside P))))"
    by (simp add: post_known)
next
  assume "other \<noteq> randomUUID e \<and> mcp_session_id req \<noteq> Some other"
  then show "transports (snd (mcpPostHandler e req P)) other = transports P other"
    by (simp add: other_sessions_untouched)
next
  assume a: "initBrowser e s = (Inr (), s1)"
  show "browser (fst s1) = Some (case browser (fst s) of Some b \<Rightarrow> b | None \<Rightarrow> fresh (snd s))"
    by (rule initBrowser_success(1) [OF a])
  show "page (fst s1) =
          Some (case page (fst s) of Some p \<Rightarrow> p
                | None \<Rightarrow> (case browser (fst s) of Some b \<Rightarrow> fresh (snd s)
                            | None \<Rightarrow> Suc (fresh (snd s))))"
    by (rule initBrowser_success(2) [OF a])
  show "browsers (snd s1) =
          browsers (snd s) @ (case browser (fst s) of Some b \<Rightarrow> [] | None \<Rightarrow> [fresh (snd s)])"
    by (rule initBrowser_success(3) [OF a])
  show "pages (snd s1) =
          pages (snd s) @
          (case page (fst s) of Some p \<Rightarrow> []
           | None \<Rightarrow> (case browser (fst s) of Some b \<Rightarrow> [fresh (snd s)]
                       | None \<Rightarrow> [Suc (fresh (snd s))]))"
    by (rule initBrowser_success(4) [OF a])
next
  assume "browser (fst s) \<noteq> None \<and> page (fst s) \<noteq> None"
  then show "initBrowser e s = (Inr (), s)"
    by (simp add: initBrowser_reuse)
qed

theorem browser_state_per_session_witness:
  "\<not> truthy None \<and> isInitializeRequest Initialize
   \<and> transports (snd (mcpPostHandler second_env \<lparr>mcp_session_id = None, body = Initialize\<rparr>
        one_session)) ''session-2'' = Some \<lparr>browser = None, page = None\<rparr>
   \<and> ''session-1'' \<noteq> randomUUID second_env
   \<and> mcp_session_id \<lparr>mcp_session_id = None, body = Initialize\<rparr> \<noteq> Some ''session-1''
   \<and> transports (snd (mcpPostHandler second_env \<lparr>mcp_session_id = None, body = Initialize\<rparr>
        one_session)) ''session-1'' = transports one_session ''session-1''
   \<and> ''session-1'' \<noteq> [] \<and> transports one_session ''session-1'' = Some getServer
   \<and> transports (snd (mcpPostHandler quiet_env (screenshot_request ''session-1'') one_session))
        ''session-1'' = Some \<lparr>browser = Some 0, page = Some 1\<rparr>
   \<and> browser (fst loaded_state) \<noteq> None \<and> page (fst loaded_state) \<noteq> None
   \<and> initBrowser quiet_env loaded_state = (Inr (), loaded_state)
   \<and> initBrowser quiet_env (getServer, empty_world) =
       (Inr (), (\<lparr>browser = Some 0, page = Some 1\<rparr>,
          \<lparr>fresh = 2, browsers = [0], pages = [1],
           trace = [Ext Launch None, Ext (NewPage 0) None,
             Ext (SetViewportSize 1 1920 1080) None]\<rparr>))"
proof -
  have q: "launch quiet_env = None" "newPage quiet_env = None" "setViewportSize quiet_env = None"
    "randomUUID second_env = ''session-2''"
    by (simp_all add: quiet_env_def second_env_def)
  have k: "transports one_session ''session-1'' = Some getServer" "outside one_session = empty_world"
    by (simp_all add: one_session_def)
  have l: "browser (fst loaded_state) \<noteq> None" "page (fst loaded_state) \<noteq> None"
    by (simp_all add: loaded_state_def)
  have n: "initBrowser quiet_env (getServer, empty_world) =
       (Inr (), (\<lparr>browser = Some 0, page = Some 1\<rparr>,
          \<lparr>fresh = 2, browsers = [0], pages = [1],
           trace = [Ext Launch None, Ext (NewPage 0) None,
             Ext (SetViewportSize 1 1920 1080) None]\<rparr>))"
    by (simp add: initBrowser_cases getServer_def empty_world_def q)
  have h: "fst (snd (handleRequest quiet_env
        (CallTool (YoutubeScreenshot ''https://youtu.be/nM_6OzE6OJY?t=83'' (Some ''shot.png'') None None))
        (getServer, empty_world))) = \<lparr>browser = Some 0, page = Some 1\<rparr>"
    by (simp add: handleRequest_screenshot_state screenshot_in_new_session [OF q(1,2,3)]
        empty_world_def)
  let ?init = "\<lparr>mcp_session_id = None, body = Initialize\<rparr>"
  let ?shot = "CallTool (YoutubeScreenshot ''https://youtu.be/nM_6OzE6OJY?t=83''
               (Some ''shot.png'') None None)"
  note first = browser_state_per_session [where h = None and b = Initialize and e = second_env
      and P = one_session and other = "''session-1''" and req = ?init
      and sid = "''session-1''" and t = getServer and s = loaded_state and ?s1.0 = loaded_state]
  note second = browser_state_per_session [where h = None and b = ?shot and e = quiet_env
      and P = one_session and other = "''session-1''" and req = ?init
      and sid = "''session-1''" and t = getServer and s = loaded_state and ?s1.0 = loaded_state]
  have t: "\<not> truthy None" and i: "isInitializeRequest Initialize"
    by (simp_all add: truthy_def isInitializeRequest_def)
  have a: "transports (snd (mcpPostHandler second_env ?init one_session)) ''session-2'' =
      Some \<lparr>browser = None, page = None\<rparr>"
    using first t i q(4) by simp
  have o: "''session-1'' \<noteq> randomUUID second_env" "mcp_session_id ?init \<noteq> Some ''session-1''"
    by (simp_all add: q)
  have b: "transports (snd (mcpPostHandler second_env ?init one_session)) ''session-1'' =
      transports one_session ''session-1''"
    using first o by blast
  have c: "transports (snd (mcpPostHandler quiet_env (screenshot_request ''session-1'') one_session))
        ''session-1'' = Some \<lparr>browser = Some 0, page = Some 1\<rparr>"
    unfolding screenshot_request_def using second k h by simp
  have d: "initBrowser quiet_env loaded_state = (Inr (), loaded_state)"
    using second l by blast
  from t i a o b k c l d n show ?thesis
    by simp
qed

end
